theory Spec2Isabelle
  imports Complex_Main "HOL-Library.Multiset"
begin

section \<open>Identity: the session user and the locally persisted user (useAuth.ts)\<close>

text \<open>
  JavaScript values are modelled as follows. A value that may be \<open>null\<close> is an
  \<open>option\<close>. A string is tested for truthiness by \<open>truthy\<close>: the empty string is
  falsy, every other string is truthy; an object is always truthy.
\<close>

definition truthy :: "string \<Rightarrow> bool" where
  "truthy s = (s \<noteq> [])"

text \<open>The interface \<open>LocalUserData\<close> of useAuth.ts.\<close>

record LocalUserData =
  local_id :: string
  local_email :: string
  username :: "string option"
  avatar_url :: "string option"

text \<open>The part of the session provider's \<open>User\<close> that the hooks read.\<close>

record user_metadata =
  md_full_name :: "string option"
  md_name :: "string option"
  md_avatar_url :: "string option"

record User =
  user_id :: string
  user_email :: string
  metadata :: user_metadata

text \<open>
  The item \<open>musicapp_user\<close> of the browser's local storage: absent, present but not
  parseable as JSON, or the record that \<open>saveLocalUserData\<close> wrote.
\<close>

datatype storage_item = Absent | Corrupt | Stored LocalUserData


text \<open>The React state of \<open>useAuth\<close>, with the storage item it reads and writes.\<close>

record auth_state =
  user :: "User option"
  localUserData :: "LocalUserData option"
  loading :: bool
  storage :: storage_item
  localData :: "LocalUserData option"



text \<open>\<open>a || b\<close> on two optional strings.\<close>

definition or_else :: "string option \<Rightarrow> string option \<Rightarrow> string option" where
  "or_else a b = (case a of Some s \<Rightarrow> (if truthy s then Some s else b) | None \<Rightarrow> b)"







text \<open>
  What the hook returns: \<open>effectiveUser\<close> (the session user, else a user built from the
  local record), its own \<open>getUserId\<close>, and \<open>isAuthenticated\<close>.
\<close>

definition effectiveUser :: "auth_state \<Rightarrow> User option" where
  "effectiveUser st =
     (case user st of
        Some u \<Rightarrow> Some u
      | None \<Rightarrow>
          (case localUserData st of
             Some d \<Rightarrow>
               Some \<lparr>user_id = local_id d, user_email = local_email d,
                     metadata = \<lparr>md_full_name = username d, md_name = username d,
                                 md_avatar_url = avatar_url d\<rparr>\<rparr>
           | None \<Rightarrow> None))"

definition useAuth_getUserId :: "auth_state \<Rightarrow> string option" where
  "useAuth_getUserId st =
     or_else (map_option local_id (localUserData st)) (or_else (map_option user_id (user st)) None)"

definition isAuthenticated :: "auth_state \<Rightarrow> bool" where
  "isAuthenticated st = (localUserData st \<noteq> None \<or> user st \<noteq> None)"

section \<open>The data hook's user id (useSupabaseData.ts)\<close>

text \<open>
  \<open>getUserId\<close> of \<open>useSupabaseData\<close>: the id of the \<open>user\<close> argument when it is truthy,
  else the \<open>id\<close> of the stored record, else \<open>null\<close>; a parse error is caught and
  gives \<open>null\<close>.
\<close>

definition getUserId :: "User option \<Rightarrow> storage_item \<Rightarrow> string option" where
  "getUserId usr item =
     (case usr of
        Some u \<Rightarrow>
          (if truthy (user_id u) then Some (user_id u)
           else (case item of Stored d \<Rightarrow> Some (local_id d) | _ \<Rightarrow> None))
      | None \<Rightarrow> (case item of Stored d \<Rightarrow> Some (local_id d) | _ \<Rightarrow> None))"

text \<open>The test \<open>if (!userId)\<close> that opens every fetch and mutation.\<close>

definition no_user :: "string option \<Rightarrow> bool" where
  "no_user uid = (case uid of None \<Rightarrow> True | Some s \<Rightarrow> \<not> truthy s)"

subsection \<open>A stale local record and a session of another user\<close>




section \<open>JavaScript numbers, strings and arrays\<close>

text \<open>
  Ids and counters are integers far below \<open>2^53\<close>, where a JavaScript number is exact:
  they are modelled as \<open>int\<close>. \<open>parseInt\<close> may give \<open>NaN\<close>, so a number that comes from
  it is a \<open>number\<close>. A \<open>Set<number>\<close> compares by SameValueZero, under which \<open>NaN\<close>
  equals itself: HOL's equality on \<open>number\<close>.
\<close>

datatype number = NaN | Num int

text \<open>\<open>Number.prototype.toString\<close> on an integer: decimal digits, \<open>-\<close> for a negative one.\<close>

definition digit_char :: "nat \<Rightarrow> char" where
  "digit_char d = char_of (48 + d)"

function string_of_nat :: "nat \<Rightarrow> string" where
  "string_of_nat n =
     (if n < 10 then [digit_char n] else string_of_nat (n div 10) @ [digit_char (n mod 10)])"
  by pat_completeness auto
termination
  by (relation "measure (\<lambda>n. n)") auto

declare string_of_nat.simps [simp del]

definition toString :: "int \<Rightarrow> string" where
  "toString i = (if i < 0 then CHR ''-'' # string_of_nat (nat (- i)) else string_of_nat (nat i))"

text \<open>
  \<open>parseInt\<close> without a radix: leading white space is skipped, then an optional sign,
  then \<open>0x\<close> or \<open>0X\<close> selects radix 16, then the longest prefix of digits is read;
  no digit at all gives \<open>NaN\<close>. (Only the ASCII white space is modelled.)
\<close>

definition is_white_space :: "char \<Rightarrow> bool" where
  "is_white_space c = (of_char c \<in> {9, 10, 11, 12, 13, 32 :: nat})"

definition digit_value :: "char \<Rightarrow> nat option" where
  "digit_value c =
     (let k = (of_char c :: nat) in
      if 48 \<le> k \<and> k \<le> 57 then Some (k - 48)
      else if 97 \<le> k \<and> k \<le> 102 then Some (k - 87)
      else if 65 \<le> k \<and> k \<le> 70 then Some (k - 55)
      else None)"

definition is_digit_in :: "nat \<Rightarrow> char \<Rightarrow> bool" where
  "is_digit_in radix c = (case digit_value c of Some d \<Rightarrow> d < radix | None \<Rightarrow> False)"

definition digits_value :: "nat \<Rightarrow> string \<Rightarrow> nat" where
  "digits_value radix ds = foldl (\<lambda>acc c. acc * radix + (case digit_value c of Some d \<Rightarrow> d | None \<Rightarrow> 0)) 0 ds"

definition parse_unsigned :: "string \<Rightarrow> nat option" where
  "parse_unsigned s =
     (let (radix, body) =
            (case s of
               c0 # cx # rest \<Rightarrow>
                 (if c0 = CHR ''0'' \<and> (cx = CHR ''x'' \<or> cx = CHR ''X'') then (16, rest)
                  else (10, s))
             | _ \<Rightarrow> (10, s));
          ds = takeWhile (is_digit_in radix) body
      in if ds = [] then None else Some (digits_value radix ds))"

definition parseInt :: "string \<Rightarrow> number" where
  "parseInt s =
     (let t = dropWhile is_white_space s;
          (neg, body) =
            (case t of
               c # rest \<Rightarrow>
                 (if c = CHR ''-'' then (True, rest)
                  else if c = CHR ''+'' then (False, rest) else (False, t))
             | [] \<Rightarrow> (False, t))
      in case parse_unsigned body of
           None \<Rightarrow> NaN
         | Some n \<Rightarrow> Num (if neg then - int n else int n))"

text \<open>\<open>String.prototype.toLowerCase\<close>, on the ASCII letters.\<close>

definition lower_char :: "char \<Rightarrow> char" where
  "lower_char c =
     (let k = (of_char c :: nat) in if 65 \<le> k \<and> k \<le> 90 then char_of (k + 32) else c)"

definition toLowerCase :: "string \<Rightarrow> string" where
  "toLowerCase s = map lower_char s"

text \<open>
  \<open>xs.sort((a, b) => key(b) - key(a))\<close>: the sort of ECMAScript 2019 is stable, so with a
  numeric key the result is the stable sort by descending key. An element goes before
  the first one whose key is not larger than its own.
\<close>

fun insert_desc :: "('a \<Rightarrow> 'k::linorder) \<Rightarrow> 'a \<Rightarrow> 'a list \<Rightarrow> 'a list" where
  "insert_desc key x [] = [x]"
| "insert_desc key x (y # ys) =
     (if key y \<le> key x then x # y # ys else y # insert_desc key x ys)"

fun sort_desc :: "('a \<Rightarrow> 'k::linorder) \<Rightarrow> 'a list \<Rightarrow> 'a list" where
  "sort_desc key [] = []"
| "sort_desc key (x # xs) = insert_desc key x (sort_desc key xs)"

text \<open>\<open>xs.find(p)\<close>.\<close>

fun find_first :: "('a \<Rightarrow> bool) \<Rightarrow> 'a list \<Rightarrow> 'a option" where
  "find_first p [] = None"
| "find_first p (x # xs) = (if p x then Some x else find_first p xs)"

section \<open>Songs\<close>

text \<open>
  A row of the \<open>songs\<close> table and the song of the user interface. A \<open>tags\<close> column
  that is \<open>null\<close> is read as the empty list wherever the code reads it
  (\<open>song.tags?.\<close>, \<open>song.tags || []\<close>), so it is the empty list here.
\<close>

record DatabaseSong =
  file_id :: int
  img_id :: int
  name :: string
  artist :: string
  language :: string
  tags :: "string list"
  views :: int
  likes :: int

record Song = DatabaseSong +
  id_str :: string
  image :: string
  isLiked :: bool

definition image_url :: "int \<Rightarrow> string" where
  "image_url i =
     ''https://images.pexels.com/photos/'' @ toString i @ ''/pexels-photo-'' @ toString i
       @ ''.jpeg?auto=compress&cs=tinysrgb&w=300''"

definition default_image :: string where
  "default_image =
     ''https://images.pexels.com/photos/1763075/pexels-photo-1763075.jpeg?auto=compress&cs=tinysrgb&w=300''"

definition convertDatabaseSong :: "DatabaseSong \<Rightarrow> bool \<Rightarrow> Song" where
  "convertDatabaseSong dbSong liked =
     \<lparr>file_id = file_id dbSong, img_id = img_id dbSong, name = name dbSong,
      artist = artist dbSong, language = language dbSong, tags = tags dbSong,
      views = views dbSong, likes = likes dbSong,
      id_str = toString (file_id dbSong), image = image_url (img_id dbSong),
      isLiked = liked\<rparr>"

section \<open>The state of the data hook and the answers of the remote store\<close>

text \<open>
  A query answers \<open>{data, error}\<close>: \<open>Failed\<close> when \<open>error\<close> is set, else the rows. The
  remote store is outside the code, so every function takes the answers it receives
  as arguments.
\<close>

datatype 'a response = Failed | Data 'a

text \<open>
  A row of \<open>history\<close> with its joined song: \<open>null\<close>, one row, or an array of rows
  (the code takes the first one of an array).
\<close>

datatype joined = NoSong | OneSong DatabaseSong | SongArray "DatabaseSong list"

record history_row =
  song_id :: int
  minutes_listened :: rat
  h_songs :: joined

record Playlist =
  pl_id :: string
  pl_name :: string
  songCount :: nat
  pl_image :: string
  pl_songs :: "Song list"

record data_state =
  songsCache :: "DatabaseSong list option"
  likedSongsCache :: "number set option"
  songs :: "Song list"
  personalizedSongs :: "Song list"
  trendingSongs :: "Song list"
  playlists :: "Playlist list"
  likedSongs :: "number set"
  lastPlayedSong :: "Song option"
  recentlyPlayedSongs :: "Song list"
  data_loading :: bool
  currentSongStartTime :: "int option"
  currentSongRef :: "string option"

definition initial_state :: data_state where
  "initial_state =
     \<lparr>songsCache = None, likedSongsCache = None, songs = [], personalizedSongs = [],
      trendingSongs = [], playlists = [], likedSongs = {}, lastPlayedSong = None,
      recentlyPlayedSongs = [], data_loading = True, currentSongStartTime = None,
      currentSongRef = None\<rparr>"

section \<open>fetchSongs: all songs, the personalized list, trending, last played\<close>

text \<open>
  \<open>tagCount\<close> and \<open>artistCount\<close> are objects used as counters; \<open>Object.entries\<close>
  lists the keys that are array indices first, in ascending numeric order, then the
  other keys in insertion order. The counters are association lists kept in that order.
  (Keys that name a property of \<open>Object.prototype\<close> are not modelled.)
\<close>

definition array_index :: "string \<Rightarrow> nat option" where
  "array_index s =
     (if s \<noteq> [] \<and> list_all (is_digit_in 10) s \<and> (s = ''0'' \<or> hd s \<noteq> CHR ''0'')
         \<and> digits_value 10 s \<le> 4294967294
      then Some (digits_value 10 s) else None)"

fun insert_key :: "string \<Rightarrow> (string \<times> int) list \<Rightarrow> (string \<times> int) list" where
  "insert_key k [] = [(k, 1)]"
| "insert_key k ((k', c) # es) =
     (case array_index k of
        None \<Rightarrow> (k', c) # insert_key k es
      | Some n \<Rightarrow>
          (case array_index k' of
             Some n' \<Rightarrow> (if n' < n then (k', c) # insert_key k es else (k, 1) # (k', c) # es)
           | None \<Rightarrow> (k, 1) # (k', c) # es))"

definition bump_count :: "string \<Rightarrow> (string \<times> int) list \<Rightarrow> (string \<times> int) list" where
  "bump_count k es =
     (if k \<in> set (map fst es)
      then map (\<lambda>(k', c). if k' = k then (k', c + 1) else (k', c)) es
      else insert_key k es)"

text \<open>\<open>h.songs\<close> as a truth value, and the song object taken from it.\<close>

fun has_songs :: "history_row \<Rightarrow> bool" where
  "has_songs h = (h_songs h \<noteq> NoSong)"

fun songObj :: "history_row \<Rightarrow> DatabaseSong option" where
  "songObj h =
     (case h_songs h of
        NoSong \<Rightarrow> None
      | OneSong s \<Rightarrow> Some s
      | SongArray [] \<Rightarrow> None
      | SongArray (s # _) \<Rightarrow> Some s)"

definition topHistory :: "history_row list \<Rightarrow> history_row list" where
  "topHistory historyData = filter has_songs (take 15 historyData)"

definition tagCount :: "history_row list \<Rightarrow> (string \<times> int) list" where
  "tagCount hs =
     fold (\<lambda>h acc.
        case songObj h of
          None \<Rightarrow> acc
        | Some s \<Rightarrow> fold (\<lambda>tag acc'. bump_count (toLowerCase tag) acc') (tags s) acc)
       hs []"

definition artistCount :: "history_row list \<Rightarrow> (string \<times> int) list" where
  "artistCount hs =
     fold (\<lambda>h acc.
        case songObj h of
          None \<Rightarrow> acc
        | Some s \<Rightarrow> (if truthy (artist s) then bump_count (toLowerCase (artist s)) acc else acc))
       hs []"

definition most_common :: "(string \<times> int) list \<Rightarrow> string list" where
  "most_common entries = map fst (take 5 (sort_desc snd entries))"

definition commonTags :: "history_row list \<Rightarrow> string list" where
  "commonTags historyData = most_common (tagCount (topHistory historyData))"

definition commonArtists :: "history_row list \<Rightarrow> string list" where
  "commonArtists historyData = most_common (artistCount (topHistory historyData))"

definition historySongIds :: "history_row list \<Rightarrow> string set" where
  "historySongIds historyData = set (map (\<lambda>h. toString (song_id h)) historyData)"

text \<open>The score of the personalized list of \<open>fetchSongs\<close>.\<close>

definition history_score :: "string list \<Rightarrow> string list \<Rightarrow> Song \<Rightarrow> int" where
  "history_score cTags cArtists song =
     int (length (filter (\<lambda>t. t \<in> set cTags) (map toLowerCase (tags song)))) * 10
     + (if truthy (artist song) \<and> toLowerCase (artist song) \<in> set cArtists then 20 else 0)
     + (views song + likes song)"

definition convertedSongs :: "number set \<Rightarrow> DatabaseSong list \<Rightarrow> Song list" where
  "convertedSongs userLikedSongs songsData =
     map (\<lambda>song. convertDatabaseSong song (Num (file_id song) \<in> userLikedSongs)) songsData"

definition personalizedSorted :: "history_row list \<Rightarrow> Song list \<Rightarrow> Song list" where
  "personalizedSorted historyData converted =
     sort_desc (history_score (commonTags historyData) (commonArtists historyData))
       (filter (\<lambda>song. id_str song \<notin> historySongIds historyData) converted)"

definition trending :: "Song list \<Rightarrow> Song list" where
  "trending converted = take 15 (sort_desc (\<lambda>song. views song + likes song) converted)"

text \<open>
  \<open>fetchSongs\<close>. Its first argument is what \<open>getUserId()\<close> gave. Only a failure of the
  \<open>songs\<close> query is thrown (and caught at the end of the function); a failure of the
  liked-songs, history or users query is logged and the function goes on with the
  empty set, the empty history, and without a last played song.
\<close>

definition fetchSongs ::
  "string option \<Rightarrow> DatabaseSong list response \<Rightarrow> int list response \<Rightarrow>
   history_row list response \<Rightarrow> int option response \<Rightarrow> data_state \<Rightarrow> data_state" where
  "fetchSongs userId songsResp likedResp historyResp userResp st =
     (if no_user userId
      then st\<lparr>songs := [], personalizedSongs := [], trendingSongs := []\<rparr>
      else
        case songsResp of
          Failed \<Rightarrow> st\<lparr>songs := [], personalizedSongs := [], trendingSongs := []\<rparr>
        | Data songsData \<Rightarrow>
           (let userLikedSongs = (case likedResp of Failed \<Rightarrow> {} | Data ids \<Rightarrow> Num ` set ids);
                st1 = (case likedResp of Failed \<Rightarrow> st | Data ids \<Rightarrow> st\<lparr>likedSongs := userLikedSongs\<rparr>);
                historyData = (case historyResp of Failed \<Rightarrow> [] | Data rows \<Rightarrow> rows);
                converted = convertedSongs userLikedSongs songsData;
                st2 = st1\<lparr>songs := converted,
                          personalizedSongs := personalizedSorted historyData converted,
                          trendingSongs := trending converted\<rparr>
            in (case userResp of
                  Failed \<Rightarrow> st2
                | Data None \<Rightarrow> st2
                | Data (Some last_song_file_id) \<Rightarrow>
                    (if last_song_file_id = 0 then st2
                     else (case find_first (\<lambda>song. file_id song = last_song_file_id) converted of
                             None \<Rightarrow> st2
                           | Some lastSong \<Rightarrow> st2\<lparr>lastPlayedSong := Some lastSong\<rparr>)))))"

section \<open>getPersonalizedSongs: songs similar to a seed song\<close>

text \<open>
  Scores are JavaScript numbers; they are modelled as real numbers, \<open>Math.log\<close> as the
  natural logarithm (the rounding of floating-point arithmetic is not modelled, and
  counters are taken to be non-negative, where \<open>Math.log\<close> is defined). The call of
  \<open>Math.random()\<close> for the \<open>i\<close>-th candidate is the argument \<open>rnd i\<close>, a number of
  \<open>[0, 1)\<close>.
\<close>

definition historyMap :: "history_row list \<Rightarrow> (int \<rightharpoonup> rat)" where
  "historyMap historyData = fold (\<lambda>h m. m(song_id h \<mapsto> minutes_listened h)) historyData Map.empty"

definition listenedMinutes :: "(int \<rightharpoonup> rat) \<Rightarrow> int \<Rightarrow> rat" where
  "listenedMinutes m i = (case m i of None \<Rightarrow> 0 | Some v \<Rightarrow> v)"

definition is_listened :: "string set option \<Rightarrow> string \<Rightarrow> bool" where
  "is_listened listenedSongs i = (case listenedSongs of None \<Rightarrow> False | Some ls \<Rightarrow> i \<in> ls)"

definition availableSongs ::
  "Song \<Rightarrow> string set option \<Rightarrow> DatabaseSong list \<Rightarrow> DatabaseSong list" where
  "availableSongs currentSong listenedSongs songsData =
     filter (\<lambda>song.
        \<not> (file_id song = file_id currentSong)
        \<and> \<not> is_listened listenedSongs (toString (file_id song))
        \<and> \<not> (language song \<noteq> language currentSong)) songsData"

definition seed_score ::
  "Song \<Rightarrow> (int \<rightharpoonup> rat) \<Rightarrow> number set \<Rightarrow> real \<Rightarrow> DatabaseSong \<Rightarrow> real" where
  "seed_score currentSong hm userLikedSongs r song =
     real (length (filter (\<lambda>tag. tag \<in> set (tags currentSong)) (tags song))) * 15
     + (if artist song = artist currentSong then 25 else 0)
     + (if language song = language currentSong then 10 else 0)
     + min (real_of_rat (listenedMinutes hm (file_id song)) * 2) 20
     + ln (1 + real_of_int (likes song)) * 2
     + ln (1 + real_of_int (views song)) * 1
     + (if Num (file_id song) \<in> userLikedSongs then 8 else 0)
     + r * 3"

definition scoredSongs ::
  "Song \<Rightarrow> (int \<rightharpoonup> rat) \<Rightarrow> number set \<Rightarrow> (nat \<Rightarrow> real) \<Rightarrow> DatabaseSong list \<Rightarrow>
   (Song \<times> real) list" where
  "scoredSongs currentSong hm userLikedSongs rnd avail =
     map (\<lambda>(i, song).
            (convertDatabaseSong song (Num (file_id song) \<in> userLikedSongs),
             seed_score currentSong hm userLikedSongs (rnd i) song))
       (enumerate 0 avail)"

definition recommendations :: "nat \<Rightarrow> (Song \<times> real) list \<Rightarrow> Song list" where
  "recommendations k scored = map fst (take k (sort_desc snd scored))"

text \<open>
  \<open>getPersonalizedSongs\<close> returns the recommendations and leaves the two caches filled.
  The songs come from \<open>songsCache\<close> or, when it is empty, from the store (an error or
  an empty table returns \<open>[]\<close>); the liked set comes from \<open>likedSongsCache\<close> or from the
  store (an error gives the empty set); the history is read every time.
\<close>

definition getPersonalizedSongs ::
  "string \<Rightarrow> Song \<Rightarrow> string set option \<Rightarrow> DatabaseSong list response \<Rightarrow>
   history_row list response \<Rightarrow> int list response \<Rightarrow> (nat \<Rightarrow> real) \<Rightarrow> data_state \<Rightarrow>
   Song list \<times> data_state" where
  "getPersonalizedSongs userId currentSong listenedSongs songsResp historyResp likedResp rnd st =
     (case (case songsCache st of
              Some cached \<Rightarrow> Some (cached, st)
            | None \<Rightarrow>
                (case songsResp of
                   Failed \<Rightarrow> None
                 | Data rows \<Rightarrow> (if rows = [] then None else Some (rows, st\<lparr>songsCache := Some rows\<rparr>)))) of
        None \<Rightarrow> ([], st)
      | Some (songsData, st1) \<Rightarrow>
          (let hm = historyMap (case historyResp of Failed \<Rightarrow> [] | Data rows \<Rightarrow> rows);
               userLikedSongs =
                 (case likedSongsCache st1 of
                    Some cached \<Rightarrow> cached
                  | None \<Rightarrow> (case likedResp of Failed \<Rightarrow> {} | Data ids \<Rightarrow> Num ` set ids));
               st2 = st1\<lparr>likedSongsCache := Some userLikedSongs\<rparr>;
               avail = availableSongs currentSong listenedSongs songsData
           in if avail = [] then ([], st2)
              else (recommendations 10 (scoredSongs currentSong hm userLikedSongs rnd avail), st2)))"

section \<open>getSmartPersonalizedSongs: songs similar to a batch of listened songs\<close>

text \<open>
  The same scheme as \<open>getPersonalizedSongs\<close>, against a batch of songs: the candidates
  are the songs outside \<open>excludeSongs\<close> in the language of the first song of the batch;
  tags and artists are compared in lower case; the first 15 are returned.
\<close>

definition preferredTags :: "Song list \<Rightarrow> string set" where
  "preferredTags batch = set (concat (map (\<lambda>song. map toLowerCase (tags song)) batch))"

definition preferredArtists :: "Song list \<Rightarrow> string set" where
  "preferredArtists batch = set (map (\<lambda>song. toLowerCase (artist song)) batch)"

definition smart_available ::
  "Song list \<Rightarrow> string set \<Rightarrow> DatabaseSong list \<Rightarrow> DatabaseSong list" where
  "smart_available batch excludeSongs songsData =
     (case batch of
        [] \<Rightarrow> []
      | first # _ \<Rightarrow>
          filter (\<lambda>song. toString (file_id song) \<notin> excludeSongs
                         \<and> language song = language first) songsData)"

definition smart_score :: "Song list \<Rightarrow> number set \<Rightarrow> real \<Rightarrow> DatabaseSong \<Rightarrow> real" where
  "smart_score batch userLikedSongs r song =
     real (length (filter (\<lambda>tag. tag \<in> preferredTags batch) (map toLowerCase (tags song)))) * 25
     + (if toLowerCase (artist song) \<in> preferredArtists batch then 30 else 0)
     + (if language song \<in> set (map language batch) then 15 else 0)
     + ln (1 + real_of_int (likes song)) * 2
     + ln (1 + real_of_int (views song)) * 1
     + (if Num (file_id song) \<in> userLikedSongs then 10 else 0)
     + r * 2"

definition smart_scoredSongs ::
  "Song list \<Rightarrow> number set \<Rightarrow> (nat \<Rightarrow> real) \<Rightarrow> DatabaseSong list \<Rightarrow> (Song \<times> real) list" where
  "smart_scoredSongs batch userLikedSongs rnd avail =
     map (\<lambda>(i, song).
            (convertDatabaseSong song (Num (file_id song) \<in> userLikedSongs),
             smart_score batch userLikedSongs (rnd i) song))
       (enumerate 0 avail)"

definition getSmartPersonalizedSongs ::
  "string \<Rightarrow> Song list \<Rightarrow> string set \<Rightarrow> DatabaseSong list response \<Rightarrow>
   int list response \<Rightarrow> (nat \<Rightarrow> real) \<Rightarrow> data_state \<Rightarrow> Song list \<times> data_state" where
  "getSmartPersonalizedSongs userId listenedSongsInBatch excludeSongs songsResp likedResp rnd st =
     (if listenedSongsInBatch = [] then ([], st)
      else
        (case (case songsCache st of
                 Some cached \<Rightarrow> Some (cached, st)
               | None \<Rightarrow>
                   (case songsResp of
                      Failed \<Rightarrow> None
                    | Data rows \<Rightarrow>
                        (if rows = [] then None else Some (rows, st\<lparr>songsCache := Some rows\<rparr>)))) of
           None \<Rightarrow> ([], st)
         | Some (songsData, st1) \<Rightarrow>
             (let userLikedSongs =
                    (case likedSongsCache st1 of
                       Some cached \<Rightarrow> cached
                     | None \<Rightarrow> (case likedResp of Failed \<Rightarrow> {} | Data ids \<Rightarrow> Num ` set ids));
                  st2 = st1\<lparr>likedSongsCache := Some userLikedSongs\<rparr>;
                  avail = smart_available listenedSongsInBatch excludeSongs songsData
              in if avail = [] then ([], st2)
                 else (recommendations 15
                         (smart_scoredSongs listenedSongsInBatch userLikedSongs rnd avail), st2))))"

section \<open>Listening time: recordListeningHistory and stopCurrentSongTracking\<close>











section \<open>Playlists, recently played songs and the refresh\<close>

text \<open>
  A row of \<open>playlists\<close> with its joined \<open>playlist_songs\<close>; the song joined to an entry
  may be \<open>null\<close>, and converting it then throws.
\<close>

record playlist_row =
  row_id :: int
  row_name :: string
  playlist_songs :: "DatabaseSong option list"

text \<open>\<open>songs[0]?.image || fallback\<close>.\<close>

definition cover_image :: "Song list \<Rightarrow> string \<Rightarrow> string" where
  "cover_image ss fallback =
     (case ss of [] \<Rightarrow> fallback | s # _ \<Rightarrow> (if truthy (image s) then image s else fallback))"

definition convert_playlist :: "number set \<Rightarrow> playlist_row \<Rightarrow> Playlist option" where
  "convert_playlist liked row =
     (case those (playlist_songs row) of
        None \<Rightarrow> None
      | Some joined_songs \<Rightarrow>
          (let playlistSongs =
                 map (\<lambda>ps. convertDatabaseSong ps (Num (file_id ps) \<in> liked)) joined_songs
           in Some \<lparr>pl_id = toString (row_id row), pl_name = row_name row,
                    songCount = length playlistSongs,
                    pl_image = cover_image playlistSongs default_image,
                    pl_songs = playlistSongs\<rparr>))"

text \<open>
  \<open>fetchPlaylists\<close>. The liked set it reads is the \<open>likedSongs\<close> of the render that
  created the function, passed here as \<open>closure_liked\<close>. A failed query, or a
  \<open>null\<close> song, throws; the exception is caught, logged, and the state is left as it is.
\<close>

definition fetchPlaylists ::
  "string option \<Rightarrow> playlist_row list response \<Rightarrow> number set \<Rightarrow> data_state \<Rightarrow> data_state" where
  "fetchPlaylists userId playlistsResp closure_liked st =
     (if no_user userId then st\<lparr>playlists := []\<rparr>
      else
        (case playlistsResp of
           Failed \<Rightarrow> st
         | Data playlistsData \<Rightarrow>
             (case those (map (convert_playlist closure_liked) playlistsData) of
                None \<Rightarrow> st
              | Some convertedPlaylists \<Rightarrow> st\<lparr>playlists := convertedPlaylists\<rparr>)))"

text \<open>
  \<open>fetchRecentlyPlayed\<close>: a failed history query returns, an empty history empties the
  list; a joined array without a song makes the conversion throw, which empties the
  list as well. A failure of the liked-songs query is ignored.
\<close>

definition fetchRecentlyPlayed ::
  "string option \<Rightarrow> history_row list response \<Rightarrow> int list response \<Rightarrow> data_state \<Rightarrow> data_state" where
  "fetchRecentlyPlayed userId historyResp likedResp st =
     (if no_user userId then st\<lparr>recentlyPlayedSongs := []\<rparr>
      else
        (case historyResp of
           Failed \<Rightarrow> st
         | Data historyData \<Rightarrow>
             (if historyData = [] then st\<lparr>recentlyPlayedSongs := []\<rparr>
              else
                (let userLikedSongs = (case likedResp of Failed \<Rightarrow> {} | Data ids \<Rightarrow> Num ` set ids);
                     items = filter has_songs historyData
                 in case those (map (\<lambda>item. map_option
                                   (\<lambda>s. convertDatabaseSong s (Num (song_id item) \<in> userLikedSongs))
                                   (songObj item)) items) of
                      None \<Rightarrow> st\<lparr>recentlyPlayedSongs := []\<rparr>
                    | Some recentSongs \<Rightarrow> st\<lparr>recentlyPlayedSongs := recentSongs\<rparr>))))"

text \<open>
  The answers that one refresh receives, and \<open>loadData\<close>, the effect that runs when the
  \<open>user\<close> argument of the hook changes. Without a user id it clears the two caches and
  every list. Otherwise it runs the three fetches; each of them catches its own
  errors, so \<open>Promise.all\<close> does not reject and the \<open>catch\<close> of \<open>loadData\<close> is not
  reached. The three fetches write different parts of the state, and \<open>fetchPlaylists\<close>
  reads the liked set of the render that started the effect.
\<close>

record answers =
  songs_answer :: "DatabaseSong list response"
  liked_answer :: "int list response"
  history_answer :: "history_row list response"
  user_answer :: "int option response"
  playlists_answer :: "playlist_row list response"
  recent_answer :: "history_row list response"
  recent_liked_answer :: "int list response"

definition loadData :: "User option \<Rightarrow> storage_item \<Rightarrow> answers \<Rightarrow> data_state \<Rightarrow> data_state" where
  "loadData usr item ans st =
     (let userId = getUserId usr item in
      if no_user userId
      then st\<lparr>songsCache := None, likedSongsCache := None, songs := [],
               personalizedSongs := [], trendingSongs := [], playlists := [],
               likedSongs := {}, recentlyPlayedSongs := [], lastPlayedSong := None,
               data_loading := False\<rparr>
      else
        (fetchRecentlyPlayed userId (recent_answer ans) (recent_liked_answer ans)
          (fetchPlaylists userId (playlists_answer ans) (likedSongs st)
            (fetchSongs userId (songs_answer ans) (liked_answer ans) (history_answer ans)
               (user_answer ans) (st\<lparr>data_loading := True\<rparr>))))\<lparr>data_loading := False\<rparr>)"

section \<open>Mutations: likes and playlists\<close>

text \<open>
  Each mutation is a no-op without a user id, calls the remote store first, and changes
  the local state only if that call did not fail (\<open>ok\<close>).
\<close>

definition like_song :: "string \<Rightarrow> bool \<Rightarrow> Song \<Rightarrow> Song" where
  "like_song songId isCurrentlyLiked song =
     (if id_str song = songId
      then song\<lparr>isLiked := \<not> isCurrentlyLiked,
                likes := likes song + (if isCurrentlyLiked then - 1 else 1)\<rparr>
      else song)"

definition toggleLike :: "string option \<Rightarrow> string \<Rightarrow> bool \<Rightarrow> data_state \<Rightarrow> data_state" where
  "toggleLike userId songId ok st =
     (if no_user userId then st
      else
        (let songFileId = parseInt songId;
             isCurrentlyLiked = (songFileId \<in> likedSongs st)
         in if \<not> ok then st
            else st\<lparr>likedSongs :=
                       (if isCurrentlyLiked then likedSongs st - {songFileId}
                        else insert songFileId (likedSongs st)),
                     songs := map (like_song songId isCurrentlyLiked) (songs st),
                     playlists :=
                       map (\<lambda>playlist.
                              playlist\<lparr>pl_songs := map (like_song songId isCurrentlyLiked) (pl_songs playlist)\<rparr>)
                         (playlists st)\<rparr>))"

definition createPlaylist ::
  "string option \<Rightarrow> (int \<times> string) response \<Rightarrow> data_state \<Rightarrow> data_state" where
  "createPlaylist userId inserted st =
     (if no_user userId then st
      else
        (case inserted of
           Failed \<Rightarrow> st
         | Data (new_id, new_name) \<Rightarrow>
             st\<lparr>playlists := playlists st @
                   [\<lparr>pl_id = toString new_id, pl_name = new_name, songCount = 0,
                     pl_image = default_image, pl_songs = []\<rparr>]\<rparr>))"

definition deletePlaylist :: "string option \<Rightarrow> string \<Rightarrow> bool \<Rightarrow> data_state \<Rightarrow> data_state" where
  "deletePlaylist userId playlistId ok st =
     (if no_user userId \<or> \<not> ok then st
      else st\<lparr>playlists := filter (\<lambda>playlist. pl_id playlist \<noteq> playlistId) (playlists st)\<rparr>)"

definition renamePlaylist ::
  "string option \<Rightarrow> string \<Rightarrow> string \<Rightarrow> bool \<Rightarrow> data_state \<Rightarrow> data_state" where
  "renamePlaylist userId playlistId newName ok st =
     (if no_user userId \<or> \<not> ok then st
      else st\<lparr>playlists :=
                 map (\<lambda>playlist. if pl_id playlist = playlistId
                                  then playlist\<lparr>pl_name := newName\<rparr> else playlist)
                   (playlists st)\<rparr>)"

definition add_song :: "string \<Rightarrow> Song \<Rightarrow> Playlist \<Rightarrow> Playlist" where
  "add_song playlistId song playlist =
     (if pl_id playlist = playlistId \<and> \<not> list_ex (\<lambda>s. id_str s = id_str song) (pl_songs playlist)
      then (let updatedSongs = pl_songs playlist @ [song]
            in playlist\<lparr>pl_songs := updatedSongs, songCount := length updatedSongs,
                         pl_image := cover_image updatedSongs (pl_image playlist)\<rparr>)
      else playlist)"

definition addSongToPlaylist ::
  "string option \<Rightarrow> string \<Rightarrow> Song \<Rightarrow> bool \<Rightarrow> data_state \<Rightarrow> data_state" where
  "addSongToPlaylist userId playlistId song ok st =
     (if no_user userId \<or> \<not> ok then st
      else st\<lparr>playlists := map (add_song playlistId song) (playlists st)\<rparr>)"

definition remove_song :: "string \<Rightarrow> string \<Rightarrow> Playlist \<Rightarrow> Playlist" where
  "remove_song playlistId songId playlist =
     (if pl_id playlist = playlistId
      then (let updatedSongs = filter (\<lambda>song. id_str song \<noteq> songId) (pl_songs playlist)
            in playlist\<lparr>pl_songs := updatedSongs, songCount := length updatedSongs,
                         pl_image := cover_image updatedSongs default_image\<rparr>)
      else playlist)"

definition removeSongFromPlaylist ::
  "string option \<Rightarrow> string \<Rightarrow> string \<Rightarrow> bool \<Rightarrow> data_state \<Rightarrow> data_state" where
  "removeSongFromPlaylist userId playlistId songId ok st =
     (if no_user userId \<or> \<not> ok then st
      else st\<lparr>playlists := map (remove_song playlistId songId) (playlists st)\<rparr>)"

section \<open>Sequences of operations on the playlists\<close>

text \<open>
  An operation of the user interface on the playlists, with the answer of the remote
  store it meets; each is run with the user id that \<open>getUserId()\<close> gives at that moment.
\<close>

datatype playlist_op =
    CreatePlaylist "(int \<times> string) response"
  | DeletePlaylist string bool
  | RenamePlaylist string string bool
  | AddSongToPlaylist string Song bool
  | RemoveSongFromPlaylist string string bool
  | ToggleLike string bool
  | FetchPlaylists "playlist_row list response"

fun apply_op :: "string option \<times> playlist_op \<Rightarrow> data_state \<Rightarrow> data_state" where
  "apply_op (u, CreatePlaylist inserted) st = createPlaylist u inserted st"
| "apply_op (u, DeletePlaylist playlistId ok) st = deletePlaylist u playlistId ok st"
| "apply_op (u, RenamePlaylist playlistId newName ok) st = renamePlaylist u playlistId newName ok st"
| "apply_op (u, AddSongToPlaylist playlistId song ok) st = addSongToPlaylist u playlistId song ok st"
| "apply_op (u, RemoveSongFromPlaylist playlistId songId ok) st =
     removeSongFromPlaylist u playlistId songId ok st"
| "apply_op (u, ToggleLike songId ok) st = toggleLike u songId ok st"
| "apply_op (u, FetchPlaylists playlistsResp) st = fetchPlaylists u playlistsResp (likedSongs st) st"

definition run_ops :: "(string option \<times> playlist_op) list \<Rightarrow> data_state \<Rightarrow> data_state" where
  "run_ops ops st = fold apply_op ops st"

text \<open>
  The images of songs are built by \<open>convertDatabaseSong\<close> and are never empty; a song
  handed to \<open>addSongToPlaylist\<close> is required to have one.
\<close>

fun op_ok :: "string option \<times> playlist_op \<Rightarrow> bool" where
  "op_ok (u, AddSongToPlaylist playlistId song ok) = truthy (image song)"
| "op_ok (u, other) = True"

definition first_image :: "Song list \<Rightarrow> string" where
  "first_image ss = (case ss of [] \<Rightarrow> default_image | s # _ \<Rightarrow> image s)"

definition playlist_ok :: "Playlist \<Rightarrow> bool" where
  "playlist_ok p =
     (songCount p = length (pl_songs p) \<and> pl_image p = first_image (pl_songs p)
      \<and> list_all (\<lambda>s. truthy (image s)) (pl_songs p))"

definition playlists_ok :: "data_state \<Rightarrow> bool" where
  "playlists_ok st = list_all playlist_ok (playlists st)"

definition copies :: "string \<Rightarrow> Playlist \<Rightarrow> nat" where
  "copies songId p = length (filter (\<lambda>s. id_str s = songId) (pl_songs p))"

section \<open>Example data\<close>

definition ex_song :: "int \<Rightarrow> string \<Rightarrow> string \<Rightarrow> string list \<Rightarrow> int \<Rightarrow> int \<Rightarrow> DatabaseSong" where
  "ex_song i a l ts v k =
     \<lparr>file_id = i, img_id = i, name = ''song'', artist = a, language = l, tags = ts,
      views = v, likes = k\<rparr>"

definition ex_catalog3 :: "DatabaseSong list" where
  "ex_catalog3 =
     [ex_song 1 ''x'' ''en'' [''rock''] 5 0,
      ex_song 2 ''y'' ''en'' [''rock''] 7 1,
      ex_song 3 ''z'' ''fr'' [''jazz''] 4 1]"



definition ex_history1 :: "history_row list" where
  "ex_history1 =
     [\<lparr>song_id = 1, minutes_listened = 3,
       h_songs = OneSong (ex_song 1 ''x'' ''en'' [''rock''] 5 0)\<rparr>]"

definition ex_seed :: Song where
  "ex_seed = convertDatabaseSong (ex_song 1 ''x'' ''en'' [''rock''] 5 0) False"


definition ex_u2 :: User where
  "ex_u2 = \<lparr>user_id = ''u2'', user_email = ''u2@x'',
            metadata = \<lparr>md_full_name = None, md_name = None, md_avatar_url = None\<rparr>\<rparr>"

definition ex_answers_history_fails :: answers where
  "ex_answers_history_fails =
     \<lparr>songs_answer = Data ex_catalog3, liked_answer = Data [2], history_answer = Failed,
      user_answer = Data None, playlists_answer = Data [], recent_answer = Data [],
      recent_liked_answer = Data []\<rparr>"

definition ex_answers_u2 :: answers where
  "ex_answers_u2 =
     \<lparr>songs_answer = Data ex_catalog3, liked_answer = Data [], history_answer = Data [],
      user_answer = Data None, playlists_answer = Data [], recent_answer = Data [],
      recent_liked_answer = Data []\<rparr>"

definition ex_cached_u1 :: data_state where
  "ex_cached_u1 =
     snd (getPersonalizedSongs ''u1'' ex_seed None (Data ex_catalog3) (Data []) (Data [2])
            (\<lambda>i. 0) initial_state)"

definition ex_switched_u2 :: data_state where
  "ex_switched_u2 = loadData (Some ex_u2) Absent ex_answers_u2 ex_cached_u1"

definition ex_answers_playlist :: answers where
  "ex_answers_playlist =
     \<lparr>songs_answer = Data ex_catalog3, liked_answer = Data [2], history_answer = Data [],
      user_answer = Data None,
      playlists_answer =
        Data [\<lparr>row_id = 7, row_name = ''mix'',
               playlist_songs = [Some (ex_song 2 ''y'' ''en'' [''rock''] 7 1)]\<rparr>],
      recent_answer = Data [],
      recent_liked_answer = Data []\<rparr>"

definition ex_loaded :: data_state where
  "ex_loaded = loadData (Some ex_u2) Absent ex_answers_playlist initial_state"

definition ex_ops :: "(string option \<times> playlist_op) list" where
  "ex_ops =
     [(Some ''u2'', CreatePlaylist (Data (7, ''mix''))),
      (Some ''u2'', AddSongToPlaylist ''7'' ex_seed True),
      (Some ''u2'', AddSongToPlaylist ''7'' ex_seed True),
      (Some ''u2'', ToggleLike ''1'' True),
      (Some ''u2'', RenamePlaylist ''7'' ''best'' True),
      (None, RemoveSongFromPlaylist ''7'' ''1'' True)]"

section \<open>Properties\<close>

subsection \<open>Identity\<close>

lemma getUserId_session_first:
  "truthy (user_id u) \<Longrightarrow> getUserId (Some u) item = Some (user_id u)"
  by (simp add: getUserId_def)

lemma getUserId_local_fallback:
  "getUserId None (Stored d) = Some (local_id d)"
  by (simp add: getUserId_def)

lemma effectiveUser_session_first:
  "user st = Some u \<Longrightarrow> effectiveUser st = Some u"
  by (simp add: effectiveUser_def)

lemma effectiveUser_local_fallback:
  "user st = None \<Longrightarrow> localUserData st = Some d \<Longrightarrow>
   map_option user_id (effectiveUser st) = Some (local_id d)"
  by (simp add: effectiveUser_def)

lemma useAuth_getUserId_local_first:
  "localUserData st = Some d \<Longrightarrow> truthy (local_id d) \<Longrightarrow>
   useAuth_getUserId st = Some (local_id d)"
  by (simp add: useAuth_getUserId_def or_else_def)


subsection \<open>Decimal strings\<close>

lemma digit_value_digit_char: "d < 10 \<Longrightarrow> digit_value (digit_char d) = Some d"
  by (simp add: digit_value_def digit_char_def Let_def)

lemma is_digit_digit_char: "d < 10 \<Longrightarrow> is_digit_in 10 (digit_char d)"
  by (simp add: is_digit_in_def digit_value_digit_char)

lemma not_digit_chars:
  "\<not> is_digit_in 10 CHR ''-''" "\<not> is_digit_in 10 CHR ''+''"
  "\<not> is_digit_in 10 CHR ''x''" "\<not> is_digit_in 10 CHR ''X''"
  by (simp_all add: is_digit_in_def digit_value_def)

lemma digit_not_white_space: "is_digit_in 10 c \<Longrightarrow> \<not> is_white_space c"
  by (auto simp: is_digit_in_def digit_value_def is_white_space_def Let_def split: if_splits)

lemma string_of_nat_digits: "list_all (is_digit_in 10) (string_of_nat n)"
proof (induction n rule: string_of_nat.induct)
  case (1 n)
  show ?case
  proof (cases "n < 10")
    case True
    then show ?thesis by (subst string_of_nat.simps) (simp add: is_digit_digit_char)
  next
    case False
    with 1 show ?thesis by (subst string_of_nat.simps) (simp add: is_digit_digit_char)
  qed
qed

lemma string_of_nat_nonempty: "string_of_nat n \<noteq> []"
  by (subst string_of_nat.simps) simp

lemma digits_value_snoc:
  "digits_value r (ds @ [c]) = digits_value r ds * r + (case digit_value c of Some d \<Rightarrow> d | None \<Rightarrow> 0)"
  by (simp add: digits_value_def)

lemma digits_value_string_of_nat: "digits_value 10 (string_of_nat n) = n"
proof (induction n rule: string_of_nat.induct)
  case (1 n)
  show ?case
  proof (cases "n < 10")
    case True
    then show ?thesis
      by (subst string_of_nat.simps) (simp add: digits_value_def digit_value_digit_char)
  next
    case False
    with 1 show ?thesis
      by (subst string_of_nat.simps) (simp add: digits_value_snoc digit_value_digit_char)
  qed
qed

lemma string_of_nat_inj: "string_of_nat m = string_of_nat n \<Longrightarrow> m = n"
  by (metis digits_value_string_of_nat)


lemma toString_inj: "toString i = toString j \<Longrightarrow> i = j"
proof -
  assume eq: "toString i = toString j"
  have hd_digit: "is_digit_in 10 (hd (string_of_nat n))" for n
    using string_of_nat_digits [of n] string_of_nat_nonempty [of n]
    by (cases "string_of_nat n") simp_all
  have neq: "string_of_nat m \<noteq> CHR ''-'' # string_of_nat n" for m n
    using hd_digit [of m] not_digit_chars(1) by (metis list.sel(1))
  show "i = j"
  proof (cases "i < 0"; cases "j < 0")
    assume "i < 0" "j < 0"
    with eq have "string_of_nat (nat (- i)) = string_of_nat (nat (- j))"
      by (simp add: toString_def)
    then have "nat (- i) = nat (- j)" by (rule string_of_nat_inj)
    with \<open>i < 0\<close> \<open>j < 0\<close> show ?thesis by simp
  next
    assume "i < 0" "\<not> j < 0"
    with eq neq show ?thesis by (simp add: toString_def) metis
  next
    assume "\<not> i < 0" "j < 0"
    with eq neq show ?thesis by (simp add: toString_def)
  next
    assume "\<not> i < 0" "\<not> j < 0"
    with eq have "string_of_nat (nat i) = string_of_nat (nat j)"
      by (simp add: toString_def)
    then have "nat i = nat j" by (rule string_of_nat_inj)
    with \<open>\<not> i < 0\<close> \<open>\<not> j < 0\<close> show ?thesis by simp
  qed
qed

lemma toString_eq_iff: "toString i = toString j \<longleftrightarrow> i = j"
  using toString_inj by blast

lemma parse_unsigned_string_of_nat: "parse_unsigned (string_of_nat n) = Some n"
proof -
  have all: "list_all (is_digit_in 10) (string_of_nat n)" by (rule string_of_nat_digits)
  have ne: "string_of_nat n \<noteq> []" by (rule string_of_nat_nonempty)
  have tw: "takeWhile (is_digit_in 10) (string_of_nat n) = string_of_nat n"
    using all by (simp add: list_all_iff)
  have no_hex: "\<not> (\<exists>rest cx. string_of_nat n = CHR ''0'' # cx # rest \<and> (cx = CHR ''x'' \<or> cx = CHR ''X''))"
    using all not_digit_chars by auto
  show ?thesis
  proof (cases "string_of_nat n")
    case Nil
    with ne show ?thesis by simp
  next
    case (Cons c0 t)
    show ?thesis
    proof (cases t)
      case Nil
      with Cons tw digits_value_string_of_nat [of n] show ?thesis
        by (simp add: parse_unsigned_def)
    next
      case (Cons cx rest)
      with \<open>string_of_nat n = c0 # t\<close> no_hex tw digits_value_string_of_nat [of n]
      show ?thesis
        by (auto simp: parse_unsigned_def Let_def)
    qed
  qed
qed

lemma parseInt_toString: "parseInt (toString i) = Num i"
proof -
  have hd_digit: "is_digit_in 10 (hd (string_of_nat n))" for n
    using string_of_nat_digits [of n] string_of_nat_nonempty [of n]
    by (cases "string_of_nat n") simp_all
  show ?thesis
  proof (cases "i < 0")
    case True
    then show ?thesis
      by (simp add: parseInt_def toString_def is_white_space_def parse_unsigned_string_of_nat)
  next
    case False
    obtain c t where ct: "string_of_nat (nat i) = c # t"
      using string_of_nat_nonempty [of "nat i"] by (cases "string_of_nat (nat i)") auto
    with hd_digit [of "nat i"] have d: "is_digit_in 10 c" by simp
    then have "\<not> is_white_space c" "c \<noteq> CHR ''-''" "c \<noteq> CHR ''+''"
      using digit_not_white_space not_digit_chars by auto
    with False ct parse_unsigned_string_of_nat [of "nat i"] show ?thesis
      by (simp add: parseInt_def toString_def)
  qed
qed

subsection \<open>The stable descending sort\<close>

lemma mset_insert_desc: "mset (insert_desc key x xs) = add_mset x (mset xs)"
  by (induction xs) auto

lemma mset_sort_desc: "mset (sort_desc key xs) = mset xs"
  by (induction xs) (auto simp: mset_insert_desc)

lemma set_sort_desc: "set (sort_desc key xs) = set xs"
  using mset_sort_desc [of key xs] by (metis set_mset_mset)

lemma length_sort_desc: "length (sort_desc key xs) = length xs"
  using mset_sort_desc [of key xs] by (metis size_mset)

lemma set_insert_desc: "set (insert_desc key x xs) = insert x (set xs)"
  using mset_insert_desc [of key x xs] by (metis set_mset_mset set_mset_add_mset_insert)

lemma sorted_insert_desc:
  "sorted_wrt (\<lambda>a b. key b \<le> key a) xs \<Longrightarrow>
   sorted_wrt (\<lambda>a b. key b \<le> key a) (insert_desc key x xs)"
proof (induction xs)
  case Nil
  then show ?case by simp
next
  case (Cons y ys)
  show ?case
  proof (cases "key y \<le> key x")
    case True
    with Cons.prems show ?thesis by auto
  next
    case False
    with Cons show ?thesis by (auto simp: set_insert_desc)
  qed
qed

lemma sorted_sort_desc: "sorted_wrt (\<lambda>a b. key b \<le> key a) (sort_desc key xs)"
  by (induction xs) (auto intro: sorted_insert_desc)

lemma filter_insert_desc:
  "filter (\<lambda>y. key y = k) (insert_desc key x xs) =
     (if key x = k then x # filter (\<lambda>y. key y = k) xs else filter (\<lambda>y. key y = k) xs)"
  by (induction xs) auto

lemma sort_desc_stable:
  "filter (\<lambda>y. key y = k) (sort_desc key xs) = filter (\<lambda>y. key y = k) xs"
  by (induction xs) (auto simp: filter_insert_desc)

subsection \<open>fetchSongs\<close>

lemma fetchSongs_ok:
  "\<not> no_user userId \<Longrightarrow>
   songs (fetchSongs userId (Data songsData) likedResp historyResp userResp st)
     = convertedSongs (case likedResp of Failed \<Rightarrow> {} | Data ids \<Rightarrow> Num ` set ids) songsData
   \<and> trendingSongs (fetchSongs userId (Data songsData) likedResp historyResp userResp st)
     = trending (convertedSongs (case likedResp of Failed \<Rightarrow> {} | Data ids \<Rightarrow> Num ` set ids) songsData)
   \<and> personalizedSongs (fetchSongs userId (Data songsData) likedResp historyResp userResp st)
     = personalizedSorted (case historyResp of Failed \<Rightarrow> [] | Data rows \<Rightarrow> rows)
         (convertedSongs (case likedResp of Failed \<Rightarrow> {} | Data ids \<Rightarrow> Num ` set ids) songsData)"
  by (simp add: fetchSongs_def Let_def split: response.splits option.splits)

lemma convertedSongs_fields:
  "map file_id (convertedSongs L xs) = map file_id xs"
  "map (\<lambda>s. views s + likes s) (convertedSongs L xs) = map (\<lambda>s. views s + likes s) xs"
  "length (convertedSongs L xs) = length xs"
  by (simp_all add: convertedSongs_def convertDatabaseSong_def o_def)

lemma trending_props:
  "length (trending c) = min 15 (length c)"
  "\<exists>rest. mset (trending c @ rest) = mset c
      \<and> sorted_wrt (\<lambda>a b. views b + likes b \<le> views a + likes a) (trending c @ rest)
      \<and> (\<forall>k. filter (\<lambda>s. views s + likes s = k) (trending c @ rest)
               = filter (\<lambda>s. views s + likes s = k) c)"
proof -
  show "length (trending c) = min 15 (length c)"
    by (simp add: trending_def length_sort_desc min.commute)
  let ?s = "sort_desc (\<lambda>song. views song + likes song) c"
  have "trending c @ drop 15 ?s = ?s" by (simp add: trending_def)
  then show "\<exists>rest. mset (trending c @ rest) = mset c
      \<and> sorted_wrt (\<lambda>a b. views b + likes b \<le> views a + likes a) (trending c @ rest)
      \<and> (\<forall>k. filter (\<lambda>s. views s + likes s = k) (trending c @ rest)
               = filter (\<lambda>s. views s + likes s = k) c)"
    using mset_sort_desc [of "\<lambda>song. views song + likes song" c]
      sorted_sort_desc [of "\<lambda>song. views song + likes song" c]
      sort_desc_stable [of "\<lambda>song. views song + likes song" _ c]
    by (intro exI [of _ "drop 15 ?s"]) simp
qed

text \<open>
  Claim C5. After a refresh that received the catalog, the trending list is the first 15
  songs of the catalog sorted by \<open>views + likes\<close> descending, songs of equal
  \<open>views + likes\<close> staying in the catalog's order: it has \<open>min 15 n\<close> songs for a
  catalog of \<open>n\<close>, and some \<open>rest\<close> completes it to a descending, order-preserving
  rearrangement of all songs.
\<close>

theorem trending_is_top15:
  assumes "\<not> no_user userId"
  shows "map file_id (songs (fetchSongs userId (Data songsData) likedResp historyResp userResp st))
           = map file_id songsData
    \<and> map (\<lambda>s. views s + likes s)
          (songs (fetchSongs userId (Data songsData) likedResp historyResp userResp st))
           = map (\<lambda>s. views s + likes s) songsData
    \<and> length (trendingSongs (fetchSongs userId (Data songsData) likedResp historyResp userResp st))
           = min 15 (length songsData)
    \<and> (\<exists>rest.
          mset (trendingSongs (fetchSongs userId (Data songsData) likedResp historyResp userResp st) @ rest)
            = mset (songs (fetchSongs userId (Data songsData) likedResp historyResp userResp st))
          \<and> sorted_wrt (\<lambda>a b. views b + likes b \<le> views a + likes a)
              (trendingSongs (fetchSongs userId (Data songsData) likedResp historyResp userResp st) @ rest)
          \<and> (\<forall>k. filter (\<lambda>s. views s + likes s = k)
                    (trendingSongs (fetchSongs userId (Data songsData) likedResp historyResp userResp st) @ rest)
                 = filter (\<lambda>s. views s + likes s = k)
                    (songs (fetchSongs userId (Data songsData) likedResp historyResp userResp st))))"
  using fetchSongs_ok [OF assms, of songsData likedResp historyResp userResp st]
    trending_props [of "convertedSongs (case likedResp of Failed \<Rightarrow> {} | Data ids \<Rightarrow> Num ` set ids) songsData"]
  by (simp add: convertedSongs_fields)

lemma ex_trending: "map file_id (trendingSongs (fetchSongs (Some ''u1'') (Data ex_catalog3) (Data [2]) (Data []) Failed initial_state)) = [2, 1, 3]"
  by (simp add: fetchSongs_def no_user_def truthy_def Let_def ex_catalog3_def ex_song_def convertedSongs_def convertDatabaseSong_def trending_def)

theorem trending_is_top15_witness:
  "\<not> no_user (Some ''u1'')
   \<and> map file_id (trendingSongs (fetchSongs (Some ''u1'') (Data ex_catalog3) (Data [2]) (Data []) Failed initial_state)) = [2, 1, 3]
   \<and> length (trendingSongs (fetchSongs (Some ''u1'') (Data ex_catalog3) (Data [2]) (Data []) Failed initial_state)) = min 15 (length ex_catalog3)"
proof -
  have h: "\<not> no_user (Some ''u1'')" by (simp add: no_user_def truthy_def)
  from trending_is_top15 [OF h, of ex_catalog3 "Data [2]" "Data []" Failed initial_state] ex_trending h
  show ?thesis by blast
qed

lemma id_str_converted:
  "s \<in> set (convertedSongs L xs) \<Longrightarrow> id_str s = toString (file_id s)"
  by (auto simp: convertedSongs_def convertDatabaseSong_def)

lemma in_historySongIds:
  "toString i \<in> historySongIds rows \<longleftrightarrow> i \<in> song_id ` set rows"
  by (auto simp: historySongIds_def toString_eq_iff)








subsection \<open>getPersonalizedSongs\<close>

lemma getPersonalizedSongs_result:
  assumes "songsCache st = Some songsData
           \<or> (songsCache st = None \<and> songsResp = Data songsData \<and> songsData \<noteq> [])"
  shows "fst (getPersonalizedSongs userId currentSong listenedSongs songsResp historyResp likedResp rnd st)
         = recommendations 10
             (scoredSongs currentSong
                (historyMap (case historyResp of Failed \<Rightarrow> [] | Data rows \<Rightarrow> rows))
                (case likedSongsCache st of
                   Some cached \<Rightarrow> cached
                 | None \<Rightarrow> (case likedResp of Failed \<Rightarrow> {} | Data ids \<Rightarrow> Num ` set ids))
                rnd (availableSongs currentSong listenedSongs songsData))"
  using assms
  by (auto simp: getPersonalizedSongs_def Let_def recommendations_def scoredSongs_def
      split: option.splits response.splits)



lemma length_recommendations:
  "length (recommendations k scored) = min k (length scored)"
  by (simp add: recommendations_def length_sort_desc min.commute)



lemma ex_available:
  "availableSongs ex_seed None ex_catalog3 = [ex_song 2 ''y'' ''en'' [''rock''] 7 1]"
  by (simp add: availableSongs_def ex_seed_def ex_catalog3_def ex_song_def
      convertDatabaseSong_def is_listened_def)




lemma set_recommendations: "set (recommendations k scored) \<subseteq> fst ` set scored"
proof -
  have "set (take k (sort_desc snd scored)) \<subseteq> set scored"
    using set_take_subset [of k "sort_desc snd scored"] by (simp add: set_sort_desc)
  then show ?thesis by (auto simp: recommendations_def)
qed

lemma set_scoredSongs:
  "fst ` set (scoredSongs c hm L rnd avail)
     = (\<lambda>song. convertDatabaseSong song (Num (file_id song) \<in> L)) ` set avail"
proof -
  let ?f = "\<lambda>song. convertDatabaseSong song (Num (file_id song) \<in> L)"
  have "map fst (scoredSongs c hm L rnd avail) = map (?f \<circ> snd) (enumerate 0 avail)"
    by (simp add: scoredSongs_def case_prod_beta o_def)
  also have "\<dots> = map ?f (map snd (enumerate 0 avail))"
    by (simp only: map_map)
  also have "\<dots> = map ?f avail" by simp
  finally have "set (map fst (scoredSongs c hm L rnd avail)) = set (map ?f avail)"
    by simp
  then show ?thesis by simp
qed

lemma getPersonalizedSongs_subset:
  "\<exists>L sd. set (fst (getPersonalizedSongs userId currentSong listenedSongs songsResp historyResp likedResp rnd st))
     \<subseteq> (\<lambda>song. convertDatabaseSong song (Num (file_id song) \<in> L))
          ` set (availableSongs currentSong listenedSongs sd)"
proof (cases "songsCache st = None \<and> (songsResp = Failed \<or> songsResp = Data [])")
  case True
  then have "fst (getPersonalizedSongs userId currentSong listenedSongs songsResp historyResp likedResp rnd st) = []"
    by (auto simp: getPersonalizedSongs_def)
  then show ?thesis by simp
next
  case False
  then obtain songsData where sd:
    "songsCache st = Some songsData
       \<or> (songsCache st = None \<and> songsResp = Data songsData \<and> songsData \<noteq> [])"
    by (cases "songsCache st"; cases songsResp) auto
  let ?L = "case likedSongsCache st of
                   Some cached \<Rightarrow> cached
                 | None \<Rightarrow> (case likedResp of Failed \<Rightarrow> {} | Data ids \<Rightarrow> Num ` set ids)"
  let ?hm = "historyMap (case historyResp of Failed \<Rightarrow> [] | Data rows \<Rightarrow> rows)"
  let ?scored = "scoredSongs currentSong ?hm ?L rnd (availableSongs currentSong listenedSongs songsData)"
  have "fst (getPersonalizedSongs userId currentSong listenedSongs songsResp historyResp likedResp rnd st)
          = recommendations 10 ?scored"
    by (rule getPersonalizedSongs_result [OF sd])
  moreover have "set (recommendations 10 ?scored) \<subseteq> fst ` set ?scored"
    by (rule set_recommendations)
  moreover have "fst ` set ?scored
       = (\<lambda>song. convertDatabaseSong song (Num (file_id song) \<in> ?L))
          ` set (availableSongs currentSong listenedSongs songsData)"
    by (rule set_scoredSongs)
  ultimately have "set (fst (getPersonalizedSongs userId currentSong listenedSongs songsResp historyResp likedResp rnd st))
       \<subseteq> (\<lambda>song. convertDatabaseSong song (Num (file_id song) \<in> ?L))
          ` set (availableSongs currentSong listenedSongs songsData)"
    by simp
  then show ?thesis by blast
qed

lemma availableSongs_props:
  "song \<in> set (availableSongs currentSong listenedSongs songsData) \<Longrightarrow>
   language song = language currentSong \<and> file_id song \<noteq> file_id currentSong
   \<and> \<not> is_listened listenedSongs (toString (file_id song))"
  by (simp add: availableSongs_def)

lemma set_smart_scoredSongs:
  "fst ` set (smart_scoredSongs batch L rnd avail)
     = (\<lambda>song. convertDatabaseSong song (Num (file_id song) \<in> L)) ` set avail"
proof -
  let ?f = "\<lambda>song. convertDatabaseSong song (Num (file_id song) \<in> L)"
  have "map fst (smart_scoredSongs batch L rnd avail) = map (?f \<circ> snd) (enumerate 0 avail)"
    by (simp add: smart_scoredSongs_def case_prod_beta o_def)
  also have "\<dots> = map ?f (map snd (enumerate 0 avail))"
    by (simp only: map_map)
  also have "\<dots> = map ?f avail" by simp
  finally have "set (map fst (smart_scoredSongs batch L rnd avail)) = set (map ?f avail)"
    by simp
  then show ?thesis by simp
qed

lemma getSmartPersonalizedSongs_cases:
  "fst (getSmartPersonalizedSongs userId batch excl songsResp likedResp rnd st) = []
   \<or> (\<exists>L songsData.
        fst (getSmartPersonalizedSongs userId batch excl songsResp likedResp rnd st)
          = recommendations 15 (smart_scoredSongs batch L rnd (smart_available batch excl songsData)))"
  by (auto simp: getSmartPersonalizedSongs_def Let_def split: option.splits response.splits)

lemma getSmartPersonalizedSongs_subset:
  "\<exists>L sd. set (fst (getSmartPersonalizedSongs userId batch excl songsResp likedResp rnd st))
     \<subseteq> (\<lambda>song. convertDatabaseSong song (Num (file_id song) \<in> L))
          ` set (smart_available batch excl sd)"
proof -
  from getSmartPersonalizedSongs_cases [of userId batch excl songsResp likedResp rnd st]
  show ?thesis
  proof
    assume "fst (getSmartPersonalizedSongs userId batch excl songsResp likedResp rnd st) = []"
    then show ?thesis by simp
  next
    assume "\<exists>L songsData.
        fst (getSmartPersonalizedSongs userId batch excl songsResp likedResp rnd st)
          = recommendations 15 (smart_scoredSongs batch L rnd (smart_available batch excl songsData))"
    then obtain L sd where r:
      "fst (getSmartPersonalizedSongs userId batch excl songsResp likedResp rnd st)
          = recommendations 15 (smart_scoredSongs batch L rnd (smart_available batch excl sd))"
      by blast
    have "set (recommendations 15 (smart_scoredSongs batch L rnd (smart_available batch excl sd)))
        \<subseteq> fst ` set (smart_scoredSongs batch L rnd (smart_available batch excl sd))"
      by (rule set_recommendations)
    with r set_smart_scoredSongs [of batch L rnd "smart_available batch excl sd"]
    have "set (fst (getSmartPersonalizedSongs userId batch excl songsResp likedResp rnd st))
       \<subseteq> (\<lambda>song. convertDatabaseSong song (Num (file_id song) \<in> L))
          ` set (smart_available batch excl sd)"
      by simp
    then show ?thesis by blast
  qed
qed

lemma smart_available_props:
  "song \<in> set (smart_available batch excl songsData) \<Longrightarrow>
   \<exists>first rest. batch = first # rest \<and> language song = language first
     \<and> toString (file_id song) \<notin> excl"
  by (cases batch) (auto simp: smart_available_def)

lemma length_getSmartPersonalizedSongs:
  "length (fst (getSmartPersonalizedSongs userId batch excl songsResp likedResp rnd st)) \<le> 15"
  using getSmartPersonalizedSongs_cases [of userId batch excl songsResp likedResp rnd st]
  by (auto simp: length_recommendations)

text \<open>
  Claim C4, as amended. Every song that \<open>getPersonalizedSongs\<close> returns has the seed's
  language, is not the seed, and is outside the set of listened songs when one is
  given. Every song that \<open>getSmartPersonalizedSongs\<close> returns has the language of the
  first song of the batch and is outside the set of excluded songs. Every song of the
  personalized list of a refresh is outside the history; that list has no language
  filter.
\<close>

theorem personalized_views_filtered:
  assumes "\<not> no_user userId"
  shows "(\<forall>s \<in> set (fst (getPersonalizedSongs uid currentSong listenedSongs songsResp
                           historyResp likedResp rnd st)).
            language s = language currentSong \<and> file_id s \<noteq> file_id currentSong
            \<and> id_str s = toString (file_id s)
            \<and> (\<forall>ls. listenedSongs = Some ls \<longrightarrow> id_str s \<notin> ls))
       \<and> (\<forall>s \<in> set (fst (getSmartPersonalizedSongs uid batch excludeSongs songsResp
                           likedResp rnd st)).
            id_str s = toString (file_id s) \<and> id_str s \<notin> excludeSongs
            \<and> (\<exists>first rest. batch = first # rest \<and> language s = language first))
       \<and> (\<forall>s \<in> set (personalizedSongs (fetchSongs userId (Data songsData) likedResp'
                           (Data rows) userResp st')).
            id_str s = toString (file_id s) \<and> id_str s \<notin> historySongIds rows
            \<and> file_id s \<notin> song_id ` set rows)"
proof -
  have seed: "language s = language currentSong \<and> file_id s \<noteq> file_id currentSong
            \<and> id_str s = toString (file_id s)
            \<and> (\<forall>ls. listenedSongs = Some ls \<longrightarrow> id_str s \<notin> ls)"
    if "s \<in> set (fst (getPersonalizedSongs uid currentSong listenedSongs songsResp
                           historyResp likedResp rnd st))" for s
  proof -
    from that
      getPersonalizedSongs_subset [of uid currentSong listenedSongs songsResp historyResp likedResp rnd st]
    obtain L sd song where song: "song \<in> set (availableSongs currentSong listenedSongs sd)"
      and s: "s = convertDatabaseSong song (Num (file_id song) \<in> L)"
      by blast
    from availableSongs_props [OF song] s show ?thesis
      by (auto simp: convertDatabaseSong_def is_listened_def)
  qed
  have smart: "id_str s = toString (file_id s) \<and> id_str s \<notin> excludeSongs
            \<and> (\<exists>first rest. batch = first # rest \<and> language s = language first)"
    if "s \<in> set (fst (getSmartPersonalizedSongs uid batch excludeSongs songsResp
                           likedResp rnd st))" for s
  proof -
    from that
      getSmartPersonalizedSongs_subset [of uid batch excludeSongs songsResp likedResp rnd st]
    obtain L sd song where song: "song \<in> set (smart_available batch excludeSongs sd)"
      and s: "s = convertDatabaseSong song (Num (file_id song) \<in> L)"
      by blast
    from smart_available_props [OF song] s show ?thesis
      by (auto simp: convertDatabaseSong_def)
  qed
  have refresh: "id_str s = toString (file_id s) \<and> id_str s \<notin> historySongIds rows
            \<and> file_id s \<notin> song_id ` set rows"
    if "s \<in> set (personalizedSongs (fetchSongs userId (Data songsData) likedResp'
                           (Data rows) userResp st'))" for s
  proof -
    from that fetchSongs_ok [OF assms, of songsData likedResp' "Data rows" userResp st']
    have "s \<in> set (filter (\<lambda>song. id_str song \<notin> historySongIds rows)
           (convertedSongs (case likedResp' of Failed \<Rightarrow> {} | Data ids \<Rightarrow> Num ` set ids) songsData))"
      by (simp add: personalizedSorted_def set_sort_desc)
    then show ?thesis
      using id_str_converted [of s] in_historySongIds [of "file_id s" rows] by auto
  qed
  show ?thesis
  proof (rule conjI)
    show "\<forall>s \<in> set (fst (getPersonalizedSongs uid currentSong listenedSongs songsResp
                           historyResp likedResp rnd st)).
            language s = language currentSong \<and> file_id s \<noteq> file_id currentSong
            \<and> id_str s = toString (file_id s)
            \<and> (\<forall>ls. listenedSongs = Some ls \<longrightarrow> id_str s \<notin> ls)"
      by (rule ballI) (rule seed)
    show "(\<forall>s \<in> set (fst (getSmartPersonalizedSongs uid batch excludeSongs songsResp
                           likedResp rnd st)).
            id_str s = toString (file_id s) \<and> id_str s \<notin> excludeSongs
            \<and> (\<exists>first rest. batch = first # rest \<and> language s = language first))
       \<and> (\<forall>s \<in> set (personalizedSongs (fetchSongs userId (Data songsData) likedResp'
                           (Data rows) userResp st')).
            id_str s = toString (file_id s) \<and> id_str s \<notin> historySongIds rows
            \<and> file_id s \<notin> song_id ` set rows)"
    proof (rule conjI)
      show "\<forall>s \<in> set (fst (getSmartPersonalizedSongs uid batch excludeSongs songsResp
                           likedResp rnd st)).
            id_str s = toString (file_id s) \<and> id_str s \<notin> excludeSongs
            \<and> (\<exists>first rest. batch = first # rest \<and> language s = language first)"
        by (rule ballI) (rule smart)
      show "\<forall>s \<in> set (personalizedSongs (fetchSongs userId (Data songsData) likedResp'
                           (Data rows) userResp st')).
            id_str s = toString (file_id s) \<and> id_str s \<notin> historySongIds rows
            \<and> file_id s \<notin> song_id ` set rows"
        by (rule ballI) (rule refresh)
    qed
  qed
qed

text \<open>
  Claim C4 as stated fails for the personalized list of a refresh: the only song of
  the history is in language \<open>en\<close>, and the list holds song 3, in language \<open>fr\<close>.
\<close>

theorem language_filter_counterexample:
  "map (\<lambda>s. (file_id s, language s))
     (personalizedSongs (fetchSongs (Some ''u1'') (Data ex_catalog3) (Data []) (Data ex_history1)
        Failed initial_state)) = [(2, ''en''), (3, ''fr'')]
   \<and> map (\<lambda>h. (song_id h, map_option language (songObj h))) ex_history1 = [(1, Some ''en'')]"
  by code_simp

theorem personalized_views_filtered_witness:
  "list_all (\<lambda>s. language s = ''en'' \<and> file_id s \<noteq> 1)
     (fst (getPersonalizedSongs ''u1'' ex_seed None (Data ex_catalog3) (Data [])
        (Data [2]) (\<lambda>i. 0) initial_state))
   \<and> list_all (\<lambda>s. file_id s \<noteq> 1)
     (personalizedSongs (fetchSongs (Some ''u1'') (Data ex_catalog3) (Data []) (Data ex_history1)
        Failed initial_state))"
proof -
  have h: "\<not> no_user (Some ''u1'')" by (simp add: no_user_def truthy_def)
  have l: "language ex_seed = ''en''" "file_id ex_seed = 1"
    by (simp_all add: ex_seed_def convertDatabaseSong_def ex_song_def)
  have r: "song_id ` set ex_history1 = {1}" by (simp add: ex_history1_def)
  from personalized_views_filtered [OF h, where uid = "''u1''" and currentSong = ex_seed
      and listenedSongs = None and songsResp = "Data ex_catalog3" and historyResp = "Data []"
      and likedResp = "Data [2]" and rnd = "\<lambda>i. 0" and st = initial_state
      and songsData = ex_catalog3 and likedResp' = "Data []" and rows = ex_history1
      and userResp = Failed and st' = initial_state]
  show ?thesis unfolding list_all_iff l r by blast
qed

subsection \<open>The listening tracker\<close>











subsection \<open>The refresh and the caches\<close>

lemma fetchSongs_caches:
  "songsCache (fetchSongs u a b c d st) = songsCache st"
  "likedSongsCache (fetchSongs u a b c d st) = likedSongsCache st"
  "playlists (fetchSongs u a b c d st) = playlists st"
  by (simp_all add: fetchSongs_def Let_def split: response.splits option.splits)

lemma fetchPlaylists_keeps:
  "songsCache (fetchPlaylists u a L st) = songsCache st"
  "likedSongsCache (fetchPlaylists u a L st) = likedSongsCache st"
  "songs (fetchPlaylists u a L st) = songs st"
  "personalizedSongs (fetchPlaylists u a L st) = personalizedSongs st"
  "trendingSongs (fetchPlaylists u a L st) = trendingSongs st"
  "lastPlayedSong (fetchPlaylists u a L st) = lastPlayedSong st"
  "likedSongs (fetchPlaylists u a L st) = likedSongs st"
  by (simp_all add: fetchPlaylists_def split: response.splits option.splits)

lemma fetchRecentlyPlayed_keeps:
  "songsCache (fetchRecentlyPlayed u a b st) = songsCache st"
  "likedSongsCache (fetchRecentlyPlayed u a b st) = likedSongsCache st"
  "songs (fetchRecentlyPlayed u a b st) = songs st"
  "personalizedSongs (fetchRecentlyPlayed u a b st) = personalizedSongs st"
  "trendingSongs (fetchRecentlyPlayed u a b st) = trendingSongs st"
  "lastPlayedSong (fetchRecentlyPlayed u a b st) = lastPlayedSong st"
  "likedSongs (fetchRecentlyPlayed u a b st) = likedSongs st"
  "playlists (fetchRecentlyPlayed u a b st) = playlists st"
  by (simp_all add: fetchRecentlyPlayed_def Let_def split: response.splits option.splits)

lemma loadData_keeps_caches:
  "\<not> no_user (getUserId usr item) \<Longrightarrow>
   songsCache (loadData usr item ans st) = songsCache st
   \<and> likedSongsCache (loadData usr item ans st) = likedSongsCache st"
  by (simp add: loadData_def Let_def fetchSongs_caches fetchPlaylists_keeps fetchRecentlyPlayed_keeps)

lemma loadData_clears_caches:
  "no_user (getUserId usr item) \<Longrightarrow>
   songsCache (loadData usr item ans st) = None
   \<and> likedSongsCache (loadData usr item ans st) = None"
  by (simp add: loadData_def Let_def)

lemma loadData_views:
  "\<not> no_user (getUserId usr item) \<Longrightarrow>
   songs (loadData usr item ans st)
     = songs (fetchSongs (getUserId usr item) (songs_answer ans) (liked_answer ans)
                (history_answer ans) (user_answer ans) (st\<lparr>data_loading := True\<rparr>))
   \<and> personalizedSongs (loadData usr item ans st)
     = personalizedSongs (fetchSongs (getUserId usr item) (songs_answer ans) (liked_answer ans)
                (history_answer ans) (user_answer ans) (st\<lparr>data_loading := True\<rparr>))
   \<and> trendingSongs (loadData usr item ans st)
     = trendingSongs (fetchSongs (getUserId usr item) (songs_answer ans) (liked_answer ans)
                (history_answer ans) (user_answer ans) (st\<lparr>data_loading := True\<rparr>))
   \<and> lastPlayedSong (loadData usr item ans st)
     = lastPlayedSong (fetchSongs (getUserId usr item) (songs_answer ans) (liked_answer ans)
                (history_answer ans) (user_answer ans) (st\<lparr>data_loading := True\<rparr>))"
  by (simp add: loadData_def Let_def fetchPlaylists_keeps fetchRecentlyPlayed_keeps)

lemma ex_cached: "songsCache ex_cached_u1 = Some ex_catalog3 \<and> likedSongsCache ex_cached_u1 = Some {Num 2}"
  by (simp add: ex_cached_u1_def getPersonalizedSongs_def initial_state_def Let_def ex_available)
    (simp add: ex_catalog3_def)

lemma ex_u2_id: "getUserId (Some ex_u2) Absent = Some ''u2''" "\<not> no_user (Some ''u2'')"
  by (simp_all add: getUserId_def ex_u2_def truthy_def no_user_def)

text \<open>
  Claim C7. The caches are meant to be emptied whenever the effective user id changes.
  \<open>loadData\<close> empties them only when there is no user id (\<open>loadData_clears_caches\<close>);
  when the user changes from one id to another it keeps them
  (\<open>loadData_keeps_caches\<close>). Below, the caches were filled for user \<open>u1\<close>, who likes
  song 2; the user changes to \<open>u2\<close>, who likes nothing, and the effect runs; a
  recommendation for \<open>u2\<close> is then computed from the liked set cached for \<open>u1\<close> and
  marks song 2 as liked.
\<close>

theorem cache_survives_user_switch:
  "likedSongsCache ex_cached_u1 = Some {Num 2}
   \<and> getUserId (Some ex_u2) Absent = Some ''u2''
   \<and> liked_answer ex_answers_u2 = Data []
   \<and> likedSongsCache ex_switched_u2 = Some {Num 2}
   \<and> map (\<lambda>s. (file_id s, isLiked s))
        (fst (getPersonalizedSongs ''u2'' ex_seed None Failed (Data []) (Data []) (\<lambda>i. 0)
                ex_switched_u2)) = [(2, True)]"
proof -
  have c: "songsCache ex_switched_u2 = Some ex_catalog3 \<and> likedSongsCache ex_switched_u2 = Some {Num 2}"
    using loadData_keeps_caches [of "Some ex_u2" Absent ex_answers_u2 ex_cached_u1] ex_cached ex_u2_id
    by (simp add: ex_switched_u2_def)
  have "fst (getPersonalizedSongs ''u2'' ex_seed None Failed (Data []) (Data []) (\<lambda>i. 0) ex_switched_u2)
        = recommendations 10 (scoredSongs ex_seed (historyMap []) {Num 2} (\<lambda>i. 0)
             (availableSongs ex_seed None ex_catalog3))"
    using getPersonalizedSongs_result [of ex_switched_u2 ex_catalog3 Failed "''u2''" ex_seed None "Data []" "Data []" "\<lambda>i. 0"] c
    by simp
  then have "map (\<lambda>s. (file_id s, isLiked s))
        (fst (getPersonalizedSongs ''u2'' ex_seed None Failed (Data []) (Data []) (\<lambda>i. 0)
                ex_switched_u2)) = [(2, True)]"
    by (simp add: ex_available recommendations_def scoredSongs_def convertDatabaseSong_def ex_song_def)
  with c ex_cached ex_u2_id show ?thesis by (simp add: ex_answers_u2_def)
qed

lemma fetchSongs_failed:
  "songs (fetchSongs u Failed b c d st) = []
   \<and> personalizedSongs (fetchSongs u Failed b c d st) = []
   \<and> trendingSongs (fetchSongs u Failed b c d st) = []"
  by (simp add: fetchSongs_def)

lemma fetchSongs_user_failed:
  "lastPlayedSong (fetchSongs u a b c Failed st) = lastPlayedSong st"
  by (simp add: fetchSongs_def Let_def split: response.splits)

lemma convertedSongs_none_liked: "list_all (\<lambda>s. \<not> isLiked s) (convertedSongs {} xs)"
  by (simp add: convertedSongs_def convertDatabaseSong_def list_all_iff)

lemma personalizedSorted_no_history:
  "mset (personalizedSorted [] converted) = mset converted"
  by (simp add: personalizedSorted_def mset_sort_desc historySongIds_def)

text \<open>
  Claim C8, as amended. In a refresh with a user id: when the \<open>songs\<close> query fails, the
  list of all songs, the personalized list and the trending list are emptied. When it
  answers, the lists are filled from the catalog whatever the other queries do: a failed
  liked-songs query leaves every song unliked, a failed history query leaves the
  personalized list a rearrangement of all songs, a failed users query leaves the last
  played song as it was. A failed playlists query leaves the playlists as they were.
\<close>

theorem refresh_failures:
  assumes "\<not> no_user (getUserId usr item)"
  shows "(songs_answer ans = Failed \<longrightarrow>
            songs (loadData usr item ans st) = []
          \<and> personalizedSongs (loadData usr item ans st) = []
          \<and> trendingSongs (loadData usr item ans st) = [])
       \<and> (\<forall>songsData. songs_answer ans = Data songsData \<longrightarrow>
            map file_id (songs (loadData usr item ans st)) = map file_id songsData
          \<and> length (trendingSongs (loadData usr item ans st)) = min 15 (length songsData)
          \<and> (liked_answer ans = Failed \<longrightarrow>
               list_all (\<lambda>s. \<not> isLiked s) (songs (loadData usr item ans st)))
          \<and> (history_answer ans = Failed \<longrightarrow>
               mset (personalizedSongs (loadData usr item ans st))
                 = mset (songs (loadData usr item ans st)))
          \<and> (user_answer ans = Failed \<longrightarrow>
               lastPlayedSong (loadData usr item ans st) = lastPlayedSong st))
       \<and> (playlists_answer ans = Failed \<longrightarrow>
            playlists (loadData usr item ans st) = playlists st)"
proof (intro conjI allI impI)
  note v = loadData_views [OF assms, of ans st]
  {
    assume "songs_answer ans = Failed"
    with v fetchSongs_failed
    show "songs (loadData usr item ans st) = []"
      "personalizedSongs (loadData usr item ans st) = []"
      "trendingSongs (loadData usr item ans st) = []"
      by simp_all
  }
  show "playlists (loadData usr item ans st) = playlists st" if "playlists_answer ans = Failed"
    using that assms
    by (simp add: loadData_def Let_def fetchRecentlyPlayed_keeps fetchPlaylists_def fetchSongs_caches)
  fix songsData assume d: "songs_answer ans = Data songsData"
  note ok = fetchSongs_ok [OF assms, of songsData "liked_answer ans" "history_answer ans"
      "user_answer ans" "st\<lparr>data_loading := True\<rparr>"]
  from v d ok show "map file_id (songs (loadData usr item ans st)) = map file_id songsData"
    by (simp add: convertedSongs_fields)
  from v d ok show "length (trendingSongs (loadData usr item ans st)) = min 15 (length songsData)"
    by (simp add: trending_props convertedSongs_fields)
  from v d ok show "list_all (\<lambda>s. \<not> isLiked s) (songs (loadData usr item ans st))"
    if "liked_answer ans = Failed"
    using that by (simp add: convertedSongs_none_liked)
  from v d ok show "mset (personalizedSongs (loadData usr item ans st))
                 = mset (songs (loadData usr item ans st))"
    if "history_answer ans = Failed"
    using that by (simp add: personalizedSorted_no_history)
  from v d show "lastPlayedSong (loadData usr item ans st) = lastPlayedSong st"
    if "user_answer ans = Failed"
    using that by (simp add: fetchSongs_user_failed)
qed

text \<open>
  Claim C8 as stated fails: the history query fails, and the refresh still fills the
  list of all songs and the trending list.
\<close>

theorem refresh_not_reset_counterexample:
  "history_answer ex_answers_history_fails = Failed
   \<and> map file_id (songs (loadData (Some ex_u2) Absent ex_answers_history_fails initial_state))
       = [1, 2, 3]
   \<and> map file_id (trendingSongs (loadData (Some ex_u2) Absent ex_answers_history_fails initial_state))
       = [2, 1, 3]"
proof -
  have "trendingSongs (loadData (Some ex_u2) Absent ex_answers_history_fails initial_state)
      = trendingSongs (fetchSongs (Some ''u2'') (Data ex_catalog3) (Data [2]) Failed (Data None)
          (initial_state\<lparr>data_loading := True\<rparr>))"
    using loadData_views [of "Some ex_u2" Absent ex_answers_history_fails initial_state] ex_u2_id
    by (simp add: ex_answers_history_fails_def)
  moreover have "map file_id \<dots> = [2, 1, 3]"
    by (simp add: fetchSongs_def no_user_def truthy_def Let_def ex_catalog3_def ex_song_def
        convertedSongs_def convertDatabaseSong_def trending_def)
  moreover have "map file_id (songs (loadData (Some ex_u2) Absent ex_answers_history_fails initial_state))
       = [1, 2, 3]"
    using loadData_views [of "Some ex_u2" Absent ex_answers_history_fails initial_state] ex_u2_id
      fetchSongs_ok [of "Some ''u2''" ex_catalog3 "Data [2]" Failed "Data None" "initial_state\<lparr>data_loading := True\<rparr>"]
    by (simp add: ex_answers_history_fails_def convertedSongs_fields)
      (simp add: ex_catalog3_def ex_song_def)
  ultimately show ?thesis by (simp add: ex_answers_history_fails_def)
qed

theorem refresh_failures_witness:
  "map file_id (songs (loadData (Some ex_u2) Absent ex_answers_history_fails initial_state))
       = map file_id ex_catalog3
   \<and> mset (personalizedSongs (loadData (Some ex_u2) Absent ex_answers_history_fails initial_state))
       = mset (songs (loadData (Some ex_u2) Absent ex_answers_history_fails initial_state))
   \<and> songs (loadData (Some ex_u2) Absent (ex_answers_history_fails\<lparr>songs_answer := Failed\<rparr>) initial_state) = []"
proof -
  have h: "\<not> no_user (getUserId (Some ex_u2) Absent)" using ex_u2_id by simp
  have a: "songs_answer ex_answers_history_fails = Data ex_catalog3"
    "history_answer ex_answers_history_fails = Failed"
    by (simp_all add: ex_answers_history_fails_def)
  from refresh_failures [OF h, of ex_answers_history_fails initial_state] a
  have 1: "map file_id (songs (loadData (Some ex_u2) Absent ex_answers_history_fails initial_state))
       = map file_id ex_catalog3
   \<and> mset (personalizedSongs (loadData (Some ex_u2) Absent ex_answers_history_fails initial_state))
       = mset (songs (loadData (Some ex_u2) Absent ex_answers_history_fails initial_state))"
    by blast
  from refresh_failures [OF h, of "ex_answers_history_fails\<lparr>songs_answer := Failed\<rparr>" initial_state]
  have 2: "songs (loadData (Some ex_u2) Absent (ex_answers_history_fails\<lparr>songs_answer := Failed\<rparr>) initial_state) = []"
    by simp
  from 1 2 show ?thesis by blast
qed

subsection \<open>toggleLike\<close>

lemma like_song_twice:
  "like_song songId (\<not> c) (like_song songId c s)
     = (if id_str s = songId then s\<lparr>isLiked := c\<rparr> else s)"
  by (simp add: like_song_def)

lemma map_like_song_twice:
  "map (like_song songId (\<not> c)) (map (like_song songId c) ss)
     = map (\<lambda>s. if id_str s = songId then s\<lparr>isLiked := c\<rparr> else s) ss"
  by (simp add: like_song_twice o_def)

lemma likes_like_song_twice:
  "map likes (map (\<lambda>s. if id_str s = songId then s\<lparr>isLiked := c\<rparr> else s) ss) = map likes ss"
  by (induction ss) auto

lemma toggleLike_twice_state:
  assumes "\<not> no_user userId"
  shows "toggleLike userId songId True (toggleLike userId songId True st)
     = st\<lparr>songs := map (\<lambda>s. if id_str s = songId
                             then s\<lparr>isLiked := (parseInt songId \<in> likedSongs st)\<rparr> else s) (songs st),
          playlists := map (\<lambda>p. p\<lparr>pl_songs :=
                                map (\<lambda>s. if id_str s = songId
                                         then s\<lparr>isLiked := (parseInt songId \<in> likedSongs st)\<rparr> else s)
                                  (pl_songs p)\<rparr>) (playlists st)\<rparr>"
proof (cases "parseInt songId \<in> likedSongs st")
  case True
  then have "insert (parseInt songId) (likedSongs st - {parseInt songId}) = likedSongs st"
    by auto
  with True assms show ?thesis
    using map_like_song_twice [of songId True]
    by (simp add: toggleLike_def Let_def o_def)
next
  case False
  then have "insert (parseInt songId) (likedSongs st) - {parseInt songId} = likedSongs st"
    by auto
  with False assms show ?thesis
    using map_like_song_twice [of songId False]
    by (simp add: toggleLike_def Let_def o_def)
qed


lemma set_flag_consistent:
  "\<forall>s \<in> set ss. id_str s = songId \<longrightarrow> isLiked s = c \<Longrightarrow>
   map (\<lambda>s. if id_str s = songId then s\<lparr>isLiked := c\<rparr> else s) ss = ss"
  by (induction ss) auto

text \<open>
  Claim C9, as amended. Two calls of \<open>toggleLike\<close> on the same id, both remote calls
  succeeding, restore the liked set and the like count of every song in the songs and
  in the playlists. The \<open>isLiked\<close> flag of a song with that id ends as the
  membership of the id in the liked set before the first call; so the whole state is
  restored when the flags of those songs agreed with the liked set. Without a user id
  the calls change nothing.
\<close>

theorem toggleLike_twice:
  "(no_user userId \<longrightarrow>
      toggleLike userId songId True (toggleLike userId songId True st) = st)
   \<and> (\<not> no_user userId \<longrightarrow>
        likedSongs (toggleLike userId songId True (toggleLike userId songId True st))
          = likedSongs st
      \<and> map likes (songs (toggleLike userId songId True (toggleLike userId songId True st)))
          = map likes (songs st)
      \<and> map (\<lambda>p. map likes (pl_songs p))
            (playlists (toggleLike userId songId True (toggleLike userId songId True st)))
          = map (\<lambda>p. map likes (pl_songs p)) (playlists st)
      \<and> songs (toggleLike userId songId True (toggleLike userId songId True st))
          = map (\<lambda>s. if id_str s = songId
                      then s\<lparr>isLiked := (parseInt songId \<in> likedSongs st)\<rparr> else s) (songs st)
      \<and> playlists (toggleLike userId songId True (toggleLike userId songId True st))
          = map (\<lambda>p. p\<lparr>pl_songs :=
                         map (\<lambda>s. if id_str s = songId
                                  then s\<lparr>isLiked := (parseInt songId \<in> likedSongs st)\<rparr> else s)
                           (pl_songs p)\<rparr>) (playlists st)
      \<and> ((\<forall>s \<in> set (songs st) \<union> (\<Union>p \<in> set (playlists st). set (pl_songs p)).
              id_str s = songId \<longrightarrow> isLiked s = (parseInt songId \<in> likedSongs st))
           \<longrightarrow> toggleLike userId songId True (toggleLike userId songId True st) = st))"
proof (intro conjI impI)
  assume "no_user userId"
  then show "toggleLike userId songId True (toggleLike userId songId True st) = st"
    by (simp add: toggleLike_def)
next
  assume u: "\<not> no_user userId"
  note t = toggleLike_twice_state [OF u, of songId st]
  show "likedSongs (toggleLike userId songId True (toggleLike userId songId True st)) = likedSongs st"
    by (simp add: t)
  show "map likes (songs (toggleLike userId songId True (toggleLike userId songId True st)))
          = map likes (songs st)"
    unfolding t using likes_like_song_twice [of songId _ "songs st"] by simp
  show "map (\<lambda>p. map likes (pl_songs p))
            (playlists (toggleLike userId songId True (toggleLike userId songId True st)))
          = map (\<lambda>p. map likes (pl_songs p)) (playlists st)"
    unfolding t using likes_like_song_twice [of songId] by (simp add: o_def)
  show "songs (toggleLike userId songId True (toggleLike userId songId True st))
          = map (\<lambda>s. if id_str s = songId
                      then s\<lparr>isLiked := (parseInt songId \<in> likedSongs st)\<rparr> else s) (songs st)"
    by (simp add: t)
  show "playlists (toggleLike userId songId True (toggleLike userId songId True st))
          = map (\<lambda>p. p\<lparr>pl_songs :=
                         map (\<lambda>s. if id_str s = songId
                                  then s\<lparr>isLiked := (parseInt songId \<in> likedSongs st)\<rparr> else s)
                           (pl_songs p)\<rparr>) (playlists st)"
    by (simp add: t)
  assume c: "\<forall>s \<in> set (songs st) \<union> (\<Union>p \<in> set (playlists st). set (pl_songs p)).
              id_str s = songId \<longrightarrow> isLiked s = (parseInt songId \<in> likedSongs st)"
  then have 1: "map (\<lambda>s. if id_str s = songId
                      then s\<lparr>isLiked := (parseInt songId \<in> likedSongs st)\<rparr> else s) (songs st)
                = songs st"
    by (intro set_flag_consistent) auto
  have 2: "map (\<lambda>s. if id_str s = songId
                      then s\<lparr>isLiked := (parseInt songId \<in> likedSongs st)\<rparr> else s) (pl_songs p)
                = pl_songs p" if "p \<in> set (playlists st)" for p
    using c that by (intro set_flag_consistent) auto
  have "map (\<lambda>p. p\<lparr>pl_songs :=
                         map (\<lambda>s. if id_str s = songId
                                  then s\<lparr>isLiked := (parseInt songId \<in> likedSongs st)\<rparr> else s)
                           (pl_songs p)\<rparr>) (playlists st) = map (\<lambda>p. p) (playlists st)"
    by (rule map_cong) (simp_all add: 2)
  with 1 show "toggleLike userId songId True (toggleLike userId songId True st) = st"
    by (simp add: t)
qed

lemma ex_loaded_playlists:
  "map (\<lambda>p. map (\<lambda>s. (id_str s, isLiked s)) (pl_songs p)) (playlists ex_loaded) = [[(''2'', False)]]
   \<and> likedSongs ex_loaded = {Num 2}"
  by code_simp


text \<open>
  Claim C9 as stated fails for the flag. After the first refresh, \<open>fetchPlaylists\<close> has
  flagged the playlist's song 2 as not liked (it read the liked set of the render
  before the refresh, which was empty) while the liked set holds song 2. Two calls of
  \<open>toggleLike\<close> on song 2 leave that flag \<open>True\<close>.
\<close>

theorem toggleLike_flag_counterexample:
  "likedSongs ex_loaded = {Num 2}
   \<and> map (\<lambda>p. map (\<lambda>s. (id_str s, isLiked s, likes s)) (pl_songs p)) (playlists ex_loaded)
       = [[(''2'', False, 1)]]
   \<and> map (\<lambda>p. map (\<lambda>s. (id_str s, isLiked s, likes s)) (pl_songs p))
        (playlists (toggleLike (Some ''u2'') ''2'' True (toggleLike (Some ''u2'') ''2'' True ex_loaded)))
       = [[(''2'', True, 1)]]"
  by code_simp

theorem toggleLike_twice_witness:
  "likedSongs (toggleLike (Some ''u2'') ''2'' True (toggleLike (Some ''u2'') ''2'' True ex_loaded))
     = likedSongs ex_loaded
   \<and> map likes (songs (toggleLike (Some ''u2'') ''2'' True (toggleLike (Some ''u2'') ''2'' True ex_loaded)))
     = map likes (songs ex_loaded)
   \<and> songs (toggleLike (Some ''u2'') ''2'' True (toggleLike (Some ''u2'') ''2'' True ex_loaded))
     = map (\<lambda>s. if id_str s = ''2''
                 then s\<lparr>isLiked := (parseInt ''2'' \<in> likedSongs ex_loaded)\<rparr> else s) (songs ex_loaded)"
  using toggleLike_twice [of "Some ''u2''" "''2''" ex_loaded] ex_u2_id(2) by blast

subsection \<open>Playlists\<close>

lemma image_converted: "truthy (image (convertDatabaseSong db l))"
  by (simp add: convertDatabaseSong_def image_url_def truthy_def)

lemma cover_image_ok:
  "list_all (\<lambda>s. truthy (image s)) ss \<Longrightarrow> cover_image ss default_image = first_image ss"
  by (cases ss) (simp_all add: cover_image_def first_image_def)

lemma convert_playlist_ok: "convert_playlist liked row = Some p \<Longrightarrow> playlist_ok p"
  by (auto simp: convert_playlist_def playlist_ok_def Let_def cover_image_ok image_converted
      list_all_iff split: option.splits)

lemma those_all: "those xs = Some ys \<Longrightarrow> y \<in> set ys \<Longrightarrow> Some y \<in> set xs"
proof (induction xs arbitrary: ys)
  case Nil
  then show ?case by simp
next
  case (Cons x xs)
  then show ?case by (auto split: option.splits)
qed

lemma fetchPlaylists_ok: "playlists_ok st \<Longrightarrow> playlists_ok (fetchPlaylists u resp liked st)"
proof -
  assume ok: "playlists_ok st"
  have "playlist_ok p"
    if "those (map (convert_playlist liked) rows) = Some ps" "p \<in> set ps" for rows ps p
    using those_all [OF that] convert_playlist_ok by auto
  with ok show ?thesis
    by (auto simp: fetchPlaylists_def playlists_ok_def list_all_iff split: response.splits option.splits)
qed

lemma like_song_image: "image (like_song songId c s) = image s"
  by (simp add: like_song_def)

lemma first_image_like: "first_image (map (like_song songId c) ss) = first_image ss"
  by (cases ss) (simp_all add: first_image_def like_song_image)

lemma toggleLike_ok: "playlists_ok st \<Longrightarrow> playlists_ok (toggleLike u songId ok st)"
  by (auto simp: toggleLike_def playlists_ok_def playlist_ok_def Let_def list_all_iff
      first_image_like like_song_image)

lemma createPlaylist_ok: "playlists_ok st \<Longrightarrow> playlists_ok (createPlaylist u inserted st)"
  by (auto simp: createPlaylist_def playlists_ok_def playlist_ok_def first_image_def
      split: response.splits)

lemma deletePlaylist_ok: "playlists_ok st \<Longrightarrow> playlists_ok (deletePlaylist u pid ok st)"
  by (auto simp: deletePlaylist_def playlists_ok_def list_all_iff)

lemma renamePlaylist_ok: "playlists_ok st \<Longrightarrow> playlists_ok (renamePlaylist u pid n ok st)"
  by (auto simp: renamePlaylist_def playlists_ok_def playlist_ok_def list_all_iff)

lemma add_song_ok: "playlist_ok p \<Longrightarrow> truthy (image song) \<Longrightarrow> playlist_ok (add_song pid song p)"
  by (cases "pl_songs p")
    (auto simp: add_song_def playlist_ok_def Let_def cover_image_def first_image_def)

lemma addSongToPlaylist_ok:
  "playlists_ok st \<Longrightarrow> truthy (image song) \<Longrightarrow> playlists_ok (addSongToPlaylist u pid song ok st)"
  by (auto simp: addSongToPlaylist_def playlists_ok_def list_all_iff add_song_ok)

lemma remove_song_ok: "playlist_ok p \<Longrightarrow> playlist_ok (remove_song pid songId p)"
proof -
  assume ok: "playlist_ok p"
  then have "list_all (\<lambda>s. truthy (image s)) (filter (\<lambda>song. id_str song \<noteq> songId) (pl_songs p))"
    by (simp add: playlist_ok_def list_all_iff)
  with ok show ?thesis
    by (simp add: remove_song_def playlist_ok_def Let_def cover_image_ok)
qed

lemma removeSongFromPlaylist_ok:
  "playlists_ok st \<Longrightarrow> playlists_ok (removeSongFromPlaylist u pid songId ok st)"
  by (auto simp: removeSongFromPlaylist_def playlists_ok_def list_all_iff remove_song_ok)

lemma apply_op_ok: "playlists_ok st \<Longrightarrow> op_ok uop \<Longrightarrow> playlists_ok (apply_op uop st)"
proof (cases uop)
  case (Pair u op)
  assume "playlists_ok st" "op_ok uop"
  with Pair show ?thesis
    by (cases op)
      (simp_all add: createPlaylist_ok deletePlaylist_ok renamePlaylist_ok addSongToPlaylist_ok
        removeSongFromPlaylist_ok toggleLike_ok fetchPlaylists_ok)
qed

lemma run_ops_ok: "playlists_ok st \<Longrightarrow> list_all op_ok ops \<Longrightarrow> playlists_ok (run_ops ops st)"
  unfolding run_ops_def
proof (induction ops arbitrary: st)
  case Nil
  then show ?case by simp
next
  case (Cons uop ops)
  then show ?case by (simp add: apply_op_ok)
qed

lemma add_song_copies:
  "copies (id_str song) (add_song pid song p)
     = (if pl_id p = pid \<and> copies (id_str song) p = 0 then 1 else copies (id_str song) p)"
  by (auto simp: add_song_def copies_def Let_def list_ex_iff filter_empty_conv)

lemma add_song_present:
  "0 < copies (id_str song) p \<Longrightarrow> add_song pid song p = p"
  by (auto simp: add_song_def copies_def list_ex_iff filter_empty_conv)


lemma initial_playlists_ok: "playlists_ok initial_state"
  by (simp add: playlists_ok_def initial_state_def)

lemma addSongToPlaylist_nth:
  "length (playlists (addSongToPlaylist u pid song ok st)) = length (playlists st)"
  "i < length (playlists st) \<Longrightarrow>
   playlists (addSongToPlaylist u pid song ok st) ! i = playlists st ! i
   \<or> playlists (addSongToPlaylist u pid song ok st) ! i = add_song pid song (playlists st ! i)"
  by (simp_all add: addSongToPlaylist_def)

text \<open>
  Claim C10. Start from playlists that satisfy the invariant (the initial state has
  none, and \<open>fetchPlaylists\<close> builds such playlists), and run any sequence of
  \<open>createPlaylist\<close>, \<open>deletePlaylist\<close>, \<open>renamePlaylist\<close>, \<open>addSongToPlaylist\<close>,
  \<open>removeSongFromPlaylist\<close>, \<open>toggleLike\<close> and \<open>fetchPlaylists\<close>, with any user ids and
  any answers of the remote store. Then in every playlist \<open>songCount\<close> is the length of
  its songs and its image is the image of its first song, or the default image when it
  has no song. \<open>addSongToPlaylist\<close> never raises the number of copies of a song id in a
  playlist above one, and leaves a playlist that holds the id as it is.
\<close>

theorem playlist_invariants:
  assumes "playlists_ok st" and "list_all op_ok ops"
  shows "(\<forall>p \<in> set (playlists (run_ops ops st)).
            songCount p = length (pl_songs p)
          \<and> pl_image p = (case pl_songs p of [] \<Rightarrow> default_image | s # _ \<Rightarrow> image s))
       \<and> (\<forall>u pid song ok.
            length (playlists (addSongToPlaylist u pid song ok (run_ops ops st)))
              = length (playlists (run_ops ops st))
          \<and> (\<forall>i < length (playlists (run_ops ops st)).
                copies (id_str song) (playlists (addSongToPlaylist u pid song ok (run_ops ops st)) ! i)
                  \<le> max 1 (copies (id_str song) (playlists (run_ops ops st) ! i))
              \<and> (0 < copies (id_str song) (playlists (run_ops ops st) ! i) \<longrightarrow>
                   playlists (addSongToPlaylist u pid song ok (run_ops ops st)) ! i
                     = playlists (run_ops ops st) ! i)))"
proof (rule conjI)
  from run_ops_ok [OF assms]
  show "\<forall>p \<in> set (playlists (run_ops ops st)).
            songCount p = length (pl_songs p)
          \<and> pl_image p = (case pl_songs p of [] \<Rightarrow> default_image | s # _ \<Rightarrow> image s)"
    by (simp add: playlists_ok_def playlist_ok_def list_all_iff first_image_def)
next
  show "\<forall>u pid song ok.
            length (playlists (addSongToPlaylist u pid song ok (run_ops ops st)))
              = length (playlists (run_ops ops st))
          \<and> (\<forall>i < length (playlists (run_ops ops st)).
                copies (id_str song) (playlists (addSongToPlaylist u pid song ok (run_ops ops st)) ! i)
                  \<le> max 1 (copies (id_str song) (playlists (run_ops ops st) ! i))
              \<and> (0 < copies (id_str song) (playlists (run_ops ops st) ! i) \<longrightarrow>
                   playlists (addSongToPlaylist u pid song ok (run_ops ops st)) ! i
                     = playlists (run_ops ops st) ! i))"
  proof (intro allI conjI impI)
    fix u pid song ok
    show "length (playlists (addSongToPlaylist u pid song ok (run_ops ops st)))
              = length (playlists (run_ops ops st))"
      by (rule addSongToPlaylist_nth)
    fix i assume i: "i < length (playlists (run_ops ops st))"
    from addSongToPlaylist_nth(2) [OF i, of u pid song ok]
    show "copies (id_str song) (playlists (addSongToPlaylist u pid song ok (run_ops ops st)) ! i)
                  \<le> max 1 (copies (id_str song) (playlists (run_ops ops st) ! i))"
      by (auto simp: add_song_copies)
    assume "0 < copies (id_str song) (playlists (run_ops ops st) ! i)"
    with addSongToPlaylist_nth(2) [OF i, of u pid song ok]
    show "playlists (addSongToPlaylist u pid song ok (run_ops ops st)) ! i
                     = playlists (run_ops ops st) ! i"
      by (auto simp: add_song_present)
  qed
qed

lemma ex_ops_result:
  "map (\<lambda>p. (pl_id p, pl_name p, songCount p, map id_str (pl_songs p), pl_image p = image ex_seed))
     (playlists (run_ops (take 5 ex_ops) initial_state)) = [(''7'', ''best'', 1, [''1''], True)]"
  by code_simp

theorem playlist_invariants_witness:
  "list_all (\<lambda>p. songCount p = length (pl_songs p)
              \<and> pl_image p = (case pl_songs p of [] \<Rightarrow> default_image | s # _ \<Rightarrow> image s))
     (playlists (run_ops ex_ops initial_state))
   \<and> map (\<lambda>p. (pl_id p, pl_name p, songCount p, map id_str (pl_songs p), pl_image p = image ex_seed))
     (playlists (run_ops (take 5 ex_ops) initial_state)) = [(''7'', ''best'', 1, [''1''], True)]"
proof -
  have ok: "list_all op_ok ex_ops"
    by (simp add: ex_ops_def ex_seed_def image_converted)
  from playlist_invariants [OF initial_playlists_ok ok] ex_ops_result
  show ?thesis unfolding list_all_iff by blast
qed

end
